theory Spec2Isabelle
  imports Complex_Main "HOL-Library.AList"
begin

section \<open>Data model\<close>

text \<open>
  The repository holds two scripts: \<^verbatim>\<open>cta-ingest.py\<close> and the package entry point
  \<^verbatim>\<open>cta_ingest/__main__.py\<close>. Both define the same functions; where the bodies differ,
  the definition taken from \<^verbatim>\<open>cta_ingest/__main__.py\<close> carries the suffix \<open>_main\<close>.

  A manifest is a JSON object from logical-ids to entries. An entry is either a list of
  part identifiers (a ledger entry) or a file descriptor (an inventory entry). Python
  dictionaries keep insertion order, so a manifest is an association list.
\<close>

record desc =
  path :: string
  size_bytes :: int
  mtime :: rat
  atime :: rat
  ts :: "rat option"

datatype entry = Parts "string list" | Desc desc

type_synonym manifest = "(string \<times> entry) list"

text \<open>The bytes of a blob or of a file: the text of a JSON manifest, or anything else.\<close>

datatype body = Json manifest | Bytes string

datatype pyval = PStr string | PInt int | PList "string list" | PSet "string list"

datatype error =
    NoSuchKeyError
  | ClientError string
  | JSONDecodeError
  | Exception "pyval list"
  | KeyError string
  | TypeError
  | AttributeError
  | ZeroDivisionError
  | FileNotFoundError string
  | FileExistsError string
  | NotADirectoryError string
  | IsADirectoryError string
  | OSError string

datatype level = INFO | WARN | ERROR

text \<open>
  Every call that leaves the process is recorded, in order: the calls of the store client,
  the calls on the file system, the processes started and the logging calls (a logging
  call is recorded with its format and the values formatted into it).
\<close>

datatype event =
    S3Get string
  | S3Put string body
  | S3UploadFile string string
  | S3DownloadFile string string
  | S3Delete string
  | S3List string
  | Popen "string list"
  | Logging level string "pyval list"
  | Iterdir string
  | Unlink string
  | Rmdir string
  | Exists string
  | Mkdir string
  | Stat string
  | Utime string rat rat
  | Chmod string nat
  | Rename string string

record inode =
  content :: body
  utime :: "(rat \<times> rat) option"
  mode :: "nat option"

text \<open>
  The world outside the process: the bucket, the local file system, the behaviour of the
  external programs (given both command lines and the files, the exit code of the second
  process and the files afterwards), the failures the store injects into a call, and the
  calls made so far.
\<close>

record world =
  bucket :: "(string \<times> body) list"
  fault :: "event \<Rightarrow> error option"
  files :: "(string \<times> inode) list"
  dirs :: "string list"
  procs :: "string list \<Rightarrow> string list \<Rightarrow> (string \<times> inode) list \<Rightarrow> int \<times> (string \<times> inode) list"
  trace :: "event list"

type_synonym 'a io = "world \<Rightarrow> (error + 'a) \<times> world"

definition ret :: "'a \<Rightarrow> 'a io" where
  "ret x w = (Inr x, w)"

definition raise :: "error \<Rightarrow> 'a io" where
  "raise e w = (Inl e, w)"

definition bnd :: "'a io \<Rightarrow> ('a \<Rightarrow> 'b io) \<Rightarrow> 'b io" where
  "bnd m f w = (case m w of (Inl e, w') \<Rightarrow> (Inl e, w') | (Inr x, w') \<Rightarrow> f x w')"

definition emit :: "event \<Rightarrow> unit io" where
  "emit ev w = (Inr (), w\<lparr>trace := trace w @ [ev]\<rparr>)"

definition lift :: "error + 'a \<Rightarrow> 'a io" where
  "lift r w = (r, w)"

text \<open>A \<^verbatim>\<open>for\<close> loop over a list, threading the local variable the body mutates.\<close>

fun for_each :: "('a \<Rightarrow> 's \<Rightarrow> 's io) \<Rightarrow> 'a list \<Rightarrow> 's \<Rightarrow> 's io" where
  "for_each body [] s = ret s"
| "for_each body (x # xs) s = bnd (body x s) (for_each body xs)"

section \<open>Python built-ins used by the stages\<close>

text \<open>
  A Python set is a list without duplicates. The order in which Python iterates over a set
  is unspecified; the model iterates in the order of the dictionary the set was built from.
\<close>

definition keys :: "manifest \<Rightarrow> string list" where
  "keys d = map fst d"

definition py_set :: "string list \<Rightarrow> string list" where
  "py_set xs = remdups xs"

definition intersection :: "string list \<Rightarrow> string list \<Rightarrow> string list" where
  "intersection a b = filter (\<lambda>k. k \<in> set b) a"

definition difference :: "string list \<Rightarrow> string list \<Rightarrow> string list" where
  "difference a b = filter (\<lambda>k. k \<notin> set b) a"

definition getitem :: "manifest \<Rightarrow> string \<Rightarrow> error + entry" where
  "getitem d k = (case map_of d k of None \<Rightarrow> Inl (KeyError k) | Some v \<Rightarrow> Inr v)"

definition pop :: "manifest \<Rightarrow> string \<Rightarrow> error + manifest" where
  "pop d k = (case map_of d k of None \<Rightarrow> Inl (KeyError k) | Some v \<Rightarrow> Inr (AList.delete k d))"

definition setdefault :: "manifest \<Rightarrow> string \<Rightarrow> entry \<Rightarrow> manifest" where
  "setdefault d k v = (case map_of d k of None \<Rightarrow> AList.update k v d | Some u \<Rightarrow> d)"

text \<open>The keys of a descriptor, in the order \<^verbatim>\<open>refresh_terminus\<close> writes them.\<close>

definition desc_keys :: "desc \<Rightarrow> string list" where
  "desc_keys d = [''path'', ''size'', ''mtime'', ''atime''] @ (case ts d of None \<Rightarrow> [] | Some t \<Rightarrow> [''ts''])"

text \<open>Iterating over an entry: the elements of a list, the keys of a dictionary.\<close>

definition iter :: "entry \<Rightarrow> string list" where
  "iter e = (case e of Parts ps \<Rightarrow> ps | Desc d \<Rightarrow> desc_keys d)"

text \<open>\<^verbatim>\<open>d[k].append(x)\<close>: only a list has \<^verbatim>\<open>append\<close>.\<close>

definition append_item :: "manifest \<Rightarrow> string \<Rightarrow> string \<Rightarrow> error + manifest" where
  "append_item d k x =
     (case map_of d k of
        None \<Rightarrow> Inl (KeyError k)
      | Some (Parts ps) \<Rightarrow> Inr (AList.update k (Parts (ps @ [x])) d)
      | Some (Desc c) \<Rightarrow> Inl AttributeError)"

text \<open>\<^verbatim>\<open>e['path']\<close>, \<^verbatim>\<open>e['atime']\<close>, \<^verbatim>\<open>e['mtime']\<close>: a list takes no string index.\<close>

definition field :: "entry \<Rightarrow> (desc \<Rightarrow> 'a) \<Rightarrow> error + 'a" where
  "field e f = (case e of Parts ps \<Rightarrow> Inl TypeError | Desc d \<Rightarrow> Inr (f d))"

text \<open>\<^verbatim>\<open>['cat'] + e\<close>: a list can only be concatenated with a list.\<close>

definition list_plus :: "string list \<Rightarrow> entry \<Rightarrow> error + string list" where
  "list_plus xs e = (case e of Parts ps \<Rightarrow> Inr (xs @ ps) | Desc d \<Rightarrow> Inl TypeError)"

text \<open>\<^verbatim>\<open>sorted\<close> on strings: the order of \<open>string\<close> is not fixed in HOL, so the
  lexicographic order on the character codes is written out.\<close>

fun str_le :: "string \<Rightarrow> string \<Rightarrow> bool" where
  "str_le [] ys = True"
| "str_le (x # xs) [] = False"
| "str_le (x # xs) (y # ys) =
     (of_char x < (of_char y :: nat) \<or> (x = y \<and> str_le xs ys))"

fun insort_str :: "string \<Rightarrow> string list \<Rightarrow> string list" where
  "insort_str x [] = [x]"
| "insort_str x (y # ys) = (if str_le x y then x # y # ys else y # insort_str x ys)"

definition sorted_py :: "string list \<Rightarrow> string list" where
  "sorted_py xs = foldr insort_str xs []"

text \<open>\<^verbatim>\<open>str(n)\<close> for an integer.\<close>

fun str_nat :: "nat \<Rightarrow> string" where
  "str_nat n = (if n < 10 then [char_of (48 + n)] else str_nat (n div 10) @ [char_of (48 + n mod 10)])"

definition str_int :: "int \<Rightarrow> string" where
  "str_int i = (if i < 0 then ''-'' @ str_nat (nat (- i)) else str_nat (nat i))"

subsection \<open>Paths\<close>

text \<open>
  Paths are the strings \<^verbatim>\<open>pathlib\<close> prints for them, taken as already normalised.
  \<^verbatim>\<open>Path(a, b)\<close> is \<open>b\<close> when \<open>b\<close> is absolute.
\<close>

definition Path2 :: "string \<Rightarrow> string \<Rightarrow> string" where
  "Path2 a b = (if b = [] then a else if hd b = CHR ''/'' then b else a @ ''/'' @ b)"

definition name :: "string \<Rightarrow> string" where
  "name p = rev (takeWhile (\<lambda>c. c \<noteq> CHR ''/'') (rev p))"

definition parent :: "string \<Rightarrow> string" where
  "parent p = rev (tl (dropWhile (\<lambda>c. c \<noteq> CHR ''/'') (rev p)))"

definition parents :: "string \<Rightarrow> string list" where
  "parents p = map (\<lambda>i. take i p) (filter (\<lambda>i. p ! i = CHR ''/'') [1..<length p])"

section \<open>External collaborators\<close>

subsection \<open>The file system\<close>

definition is_file :: "world \<Rightarrow> string \<Rightarrow> bool" where
  "is_file w p = (map_of (files w) p \<noteq> None)"

definition is_dir :: "world \<Rightarrow> string \<Rightarrow> bool" where
  "is_dir w p = (p \<in> set (dirs w))"

definition children :: "world \<Rightarrow> string \<Rightarrow> string list" where
  "children w p = filter (\<lambda>c. parent c = p \<and> c \<noteq> p) (map fst (files w) @ dirs w)"

definition exists :: "string \<Rightarrow> bool io" where
  "exists p = bnd (emit (Exists p)) (\<lambda>_ w. (Inr (is_dir w p \<or> is_file w p), w))"

definition iterdir :: "string \<Rightarrow> string list io" where
  "iterdir p = bnd (emit (Iterdir p)) (\<lambda>_ w.
     if is_dir w p then (Inr (children w p), w)
     else if is_file w p then (Inl (NotADirectoryError p), w)
     else (Inl (FileNotFoundError p), w))"

definition unlink :: "string \<Rightarrow> unit io" where
  "unlink p = bnd (emit (Unlink p)) (\<lambda>_ w.
     if is_file w p then (Inr (), w\<lparr>files := AList.delete p (files w)\<rparr>)
     else if is_dir w p then (Inl (IsADirectoryError p), w)
     else (Inl (FileNotFoundError p), w))"

definition rmdir :: "string \<Rightarrow> unit io" where
  "rmdir p = bnd (emit (Rmdir p)) (\<lambda>_ w.
     if is_dir w p then
       (if children w p = [] then (Inr (), w\<lparr>dirs := removeAll p (dirs w)\<rparr>)
        else (Inl (OSError ''ENOTEMPTY''), w))
     else if is_file w p then (Inl (NotADirectoryError p), w)
     else (Inl (FileNotFoundError p), w))"

text \<open>\<^verbatim>\<open>p.mkdir(parents=True, exist_ok=...)\<close>\<close>

definition mkdir :: "string \<Rightarrow> bool \<Rightarrow> unit io" where
  "mkdir p exist_ok = bnd (emit (Mkdir p)) (\<lambda>_ w.
     if is_dir w p then (if exist_ok then (Inr (), w) else (Inl (FileExistsError p), w))
     else if is_file w p then (Inl (FileExistsError p), w)
     else if list_ex (is_file w) (parents p) then (Inl (NotADirectoryError p), w)
     else (Inr (), w\<lparr>dirs := dirs w @ filter (\<lambda>a. \<not> is_dir w a) (parents p @ [p])\<rparr>))"

definition stat :: "string \<Rightarrow> unit io" where
  "stat p = bnd (emit (Stat p)) (\<lambda>_ w.
     if is_file w p \<or> is_dir w p then (Inr (), w) else (Inl (FileNotFoundError p), w))"

text \<open>\<^verbatim>\<open>os.utime(p, (atime, mtime))\<close> and \<^verbatim>\<open>p.chmod(m)\<close>\<close>

definition os_utime :: "string \<Rightarrow> rat \<Rightarrow> rat \<Rightarrow> unit io" where
  "os_utime p a m = bnd (emit (Utime p a m)) (\<lambda>_ w.
     case map_of (files w) p of
       Some f \<Rightarrow> (Inr (), w\<lparr>files := AList.update p (f\<lparr>utime := Some (a, m)\<rparr>) (files w)\<rparr>)
     | None \<Rightarrow> if is_dir w p then (Inr (), w) else (Inl (FileNotFoundError p), w))"

definition chmod :: "string \<Rightarrow> nat \<Rightarrow> unit io" where
  "chmod p m = bnd (emit (Chmod p m)) (\<lambda>_ w.
     case map_of (files w) p of
       Some f \<Rightarrow> (Inr (), w\<lparr>files := AList.update p (f\<lparr>mode := Some m\<rparr>) (files w)\<rparr>)
     | None \<Rightarrow> if is_dir w p then (Inr (), w) else (Inl (FileNotFoundError p), w))"

definition rename :: "string \<Rightarrow> string \<Rightarrow> unit io" where
  "rename p q = bnd (emit (Rename p q)) (\<lambda>_ w.
     case map_of (files w) p of
       None \<Rightarrow> (if is_dir w p then (Inl (OSError ''rename of a directory''), w)
                else (Inl (FileNotFoundError p), w))
     | Some f \<Rightarrow>
         if is_dir w q then (Inl (IsADirectoryError q), w)
         else if \<not> is_dir w (parent q) then (Inl (FileNotFoundError q), w)
         else (Inr (), w\<lparr>files := AList.update q f (AList.delete p (files w))\<rparr>))"

text \<open>\<^verbatim>\<open>_rmdirr\<close>\<close>

definition rmdirr :: "string \<Rightarrow> unit io" where
  "rmdirr p =
     bnd (iterdir p) (\<lambda>fps.
     bnd (for_each (\<lambda>fp u. unlink fp) fps ()) (\<lambda>_.
     rmdir p))"

subsection \<open>The two-process pipeline\<close>

text \<open>\<^verbatim>\<open>p2.communicate()\<close>: both processes run to their end; the exit code of the second
  process is read.\<close>

definition communicate :: "string list \<Rightarrow> string list \<Rightarrow> int io" where
  "communicate cmd1 cmd2 w =
     (case procs w cmd1 cmd2 (files w) of (returncode, fs) \<Rightarrow> (Inr returncode, w\<lparr>files := fs\<rparr>))"

text \<open>\<^verbatim>\<open>_run_pipeline\<close> of \<^verbatim>\<open>cta-ingest.py\<close>\<close>

definition run_pipeline :: "string list \<Rightarrow> string list \<Rightarrow> unit io" where
  "run_pipeline cmd1 cmd2 =
     bnd (emit (Popen cmd1)) (\<lambda>_.
     bnd (emit (Popen cmd2)) (\<lambda>_.
     bnd (communicate cmd1 cmd2) (\<lambda>returncode.
     if returncode \<noteq> 0
     then raise (Exception [PStr ''NonZeroReturnCode'', PInt returncode, PList cmd1, PList cmd2])
     else ret ())))"

text \<open>\<^verbatim>\<open>_run_pipeline\<close> of \<^verbatim>\<open>cta_ingest/__main__.py\<close>\<close>

definition run_pipeline_main :: "string list \<Rightarrow> string list \<Rightarrow> unit io" where
  "run_pipeline_main cmd1 cmd2 =
     bnd (emit (Popen cmd1)) (\<lambda>_.
     bnd (emit (Popen cmd2)) (\<lambda>_.
     bnd (communicate cmd1 cmd2) (\<lambda>returncode.
     if returncode \<noteq> 0
     then raise (Exception [PStr ''NonZeroReturnCode''])
     else ret ())))"

subsection \<open>The store client: \<^verbatim>\<open>S3_Wrapper\<close>\<close>

text \<open>A call of the store: recorded, then failed if the store fails it.\<close>

definition s3_call :: "event \<Rightarrow> unit io" where
  "s3_call ev = bnd (emit ev) (\<lambda>_ w.
     case fault w ev of None \<Rightarrow> (Inr (), w) | Some e \<Rightarrow> (Inl e, w))"

text \<open>\<^verbatim>\<open>obj.get()['Body'].read()\<close>\<close>

definition obj_get :: "string \<Rightarrow> body io" where
  "obj_get key = bnd (s3_call (S3Get key)) (\<lambda>_ w.
     case map_of (bucket w) key of
       None \<Rightarrow> (Inl (ClientError ''NoSuchKey''), w)
     | Some b \<Rightarrow> (Inr b, w))"

definition json_loads :: "body \<Rightarrow> error + manifest" where
  "json_loads b = (case b of Json m \<Rightarrow> Inr m | Bytes s \<Rightarrow> Inl JSONDecodeError)"

text \<open>\<^verbatim>\<open>get_from_json(key, **kwargs)\<close>: \<open>dflt\<close> is \<open>Some d\<close> when the caller passed
  \<^verbatim>\<open>default=d\<close>. Only a \<^verbatim>\<open>ClientError\<close> is caught.\<close>

definition get_from_json :: "string \<Rightarrow> manifest option \<Rightarrow> manifest io" where
  "get_from_json key dflt w =
     (case obj_get key w of
        (Inr b, w') \<Rightarrow> (json_loads b, w')
      | (Inl e, w') \<Rightarrow>
          (case e of
             ClientError code \<Rightarrow>
               (if code = ''NoSuchKey'' \<and> dflt \<noteq> None then (Inr (the dflt), w')
                else (Inl NoSuchKeyError, w'))
           | _ \<Rightarrow> (Inl e, w')))"

definition put_as_json :: "manifest \<Rightarrow> string \<Rightarrow> unit io" where
  "put_as_json state key = bnd (s3_call (S3Put key (Json state))) (\<lambda>_ w.
     (Inr (), w\<lparr>bucket := AList.update key (Json state) (bucket w)\<rparr>))"

definition download_file :: "string \<Rightarrow> string \<Rightarrow> unit io" where
  "download_file key p = bnd (s3_call (S3DownloadFile key p)) (\<lambda>_ w.
     case map_of (bucket w) key of
       None \<Rightarrow> (Inl (ClientError ''404''), w)
     | Some b \<Rightarrow>
         if is_dir w p then (Inl (IsADirectoryError p), w)
         else if \<not> is_dir w (parent p) then (Inl (FileNotFoundError p), w)
         else (Inr (), w\<lparr>files := AList.update p \<lparr>content = b, utime = None, mode = None\<rparr> (files w)\<rparr>))"

text \<open>\<^verbatim>\<open>upload_file(path, key)\<close>: the size is read with \<^verbatim>\<open>stat\<close>, then the file is
  transferred. The progress callbacks the transfer makes are modelled on their own below.\<close>

definition upload_file :: "string \<Rightarrow> string \<Rightarrow> unit io" where
  "upload_file p key =
     bnd (stat p) (\<lambda>_.
     bnd (s3_call (S3UploadFile p key)) (\<lambda>_ w.
     case map_of (files w) p of
       None \<Rightarrow> (Inl (IsADirectoryError p), w)
     | Some f \<Rightarrow> (Inr (), w\<lparr>bucket := AList.update key (content f) (bucket w)\<rparr>)))"

definition delete_object :: "string \<Rightarrow> unit io" where
  "delete_object key = bnd (s3_call (S3Delete key)) (\<lambda>_ w.
     (Inr (), w\<lparr>bucket := AList.delete key (bucket w)\<rparr>))"

definition list_keys :: "string \<Rightarrow> string list io" where
  "list_keys prefix = bnd (s3_call (S3List prefix)) (\<lambda>_ w.
     (Inr (filter (\<lambda>k. take (length prefix) k = prefix) (map fst (bucket w))), w))"

definition logging :: "level \<Rightarrow> string \<Rightarrow> pyval list \<Rightarrow> unit io" where
  "logging lvl fmt args = emit (Logging lvl fmt args)"

section \<open>The stages of \<^verbatim>\<open>cta-ingest.py\<close>\<close>

subsection \<open>\<^verbatim>\<open>disassemble\<close>\<close>

text \<open>The body of \<^verbatim>\<open>for fname in my_delivered\<close>.\<close>

definition disassemble_cleanup :: "string \<Rightarrow> string \<Rightarrow> manifest \<Rightarrow> manifest io" where
  "disassemble_cleanup work_dir fname my_state =
     bnd (logging INFO ''Cleaning up {}'' [PStr (Path2 work_dir fname)]) (\<lambda>_.
     bnd (rmdirr (Path2 work_dir fname)) (\<lambda>_.
     bnd (lift (pop my_state fname)) (\<lambda>my_state.
     bnd (put_as_json my_state ''disassemble.json'') (\<lambda>_.
     ret my_state))))"

text \<open>The body of \<^verbatim>\<open>for fname in my_unprocessed\<close>.\<close>

definition disassemble_split :: "string \<Rightarrow> int \<Rightarrow> manifest \<Rightarrow> string \<Rightarrow> manifest \<Rightarrow> manifest io" where
  "disassemble_split work_dir part_size origin fname my_state =
     bnd (logging INFO ''Compressing and splitting {}'' [PStr fname]) (\<lambda>_.
     let chunk_dir = Path2 work_dir fname in
     bnd (exists chunk_dir) (\<lambda>e.
     bnd (if e then rmdirr chunk_dir else ret ()) (\<lambda>_.
     bnd (mkdir chunk_dir False) (\<lambda>_.
     bnd (lift (getitem origin fname)) (\<lambda>origin_file.
     bnd (lift (field origin_file path)) (\<lambda>origin_path.
     let zstd_cmd = [''zstd'', ''--threads=0'', ''--stdout'', origin_path];
         split_cmd = [''split'', ''-b'', str_int part_size, ''-'', chunk_dir @ ''/''] in
     bnd (run_pipeline ([''nice'', ''-n'', ''19''] @ zstd_cmd) split_cmd) (\<lambda>_.
     bnd (iterdir chunk_dir) (\<lambda>fs.
     let my_state = AList.update fname (Parts fs) my_state in
     bnd (put_as_json my_state ''disassemble.json'') (\<lambda>_.
     ret my_state)))))))))"

definition disassemble :: "string \<Rightarrow> int \<Rightarrow> bool \<Rightarrow> unit io" where
  "disassemble work_dir part_size dry_run =
     bnd (get_from_json ''disassemble.json'' (Some [])) (\<lambda>my_state.
     bnd (get_from_json ''origin.json'' (Some [])) (\<lambda>origin.
     bnd (get_from_json ''target.json'' None) (\<lambda>target.
     let my_delivered = intersection (py_set (keys my_state)) (keys target);
         my_unprocessed =
           difference (difference (difference (py_set (keys origin)) (py_set (keys my_state)))
             (py_set (keys target))) (py_set my_delivered) in
     if dry_run then
       bnd (logging INFO ''Dry run: would have cleaned-up {}'' [PSet my_delivered]) (\<lambda>_.
       logging INFO ''Dry run: would have processed {}'' [PSet my_unprocessed])
     else
       bnd (for_each (disassemble_cleanup work_dir) my_delivered my_state) (\<lambda>my_state.
       bnd (for_each (disassemble_split work_dir part_size origin) my_unprocessed my_state) (\<lambda>_.
       ret ())))))"

subsection \<open>\<^verbatim>\<open>download\<close>\<close>

definition download_cleanup :: "string \<Rightarrow> string \<Rightarrow> manifest \<Rightarrow> manifest io" where
  "download_cleanup work_dir fname my_state =
     bnd (logging INFO ''Cleaning up {}'' [PStr (Path2 work_dir fname)]) (\<lambda>_.
     bnd (rmdirr (Path2 work_dir fname)) (\<lambda>_.
     bnd (lift (pop my_state fname)) (\<lambda>my_state.
     bnd (put_as_json my_state ''download.json'') (\<lambda>_.
     ret my_state))))"

text \<open>The body of \<^verbatim>\<open>for part_key in part_keys\<close>.\<close>

definition download_part :: "string \<Rightarrow> string \<Rightarrow> string \<Rightarrow> manifest \<Rightarrow> manifest io" where
  "download_part chunks_dir origin_path part_key my_state =
     bnd (logging INFO ''Downloading {} {}'' [PStr origin_path, PStr part_key]) (\<lambda>_.
     let dst_path = Path2 chunks_dir (name part_key) in
     bnd (download_file part_key dst_path) (\<lambda>_.
     lift (append_item my_state origin_path dst_path)))"

text \<open>The body of \<^verbatim>\<open>for origin_path in my_unprocessed\<close>.\<close>

definition download_parts :: "string \<Rightarrow> manifest \<Rightarrow> string \<Rightarrow> manifest \<Rightarrow> manifest io" where
  "download_parts work_dir src_state origin_path my_state =
     bnd (lift (getitem src_state origin_path)) (\<lambda>part_keys.
     let my_state = setdefault my_state origin_path (Parts []);
         chunks_dir = Path2 work_dir origin_path in
     bnd (mkdir chunks_dir True) (\<lambda>_.
     bnd (for_each (download_part chunks_dir origin_path) (iter part_keys) my_state) (\<lambda>my_state.
     bnd (put_as_json my_state ''download.json'') (\<lambda>_.
     ret my_state))))"

definition download :: "string \<Rightarrow> unit io" where
  "download work_dir =
     bnd (get_from_json ''download.json'' (Some [])) (\<lambda>my_state.
     bnd (get_from_json ''upload.json'' (Some [])) (\<lambda>src_state.
     bnd (get_from_json ''target.json'' None) (\<lambda>target.
     let my_delivered = intersection (py_set (keys my_state)) (keys target) in
     bnd (for_each (download_cleanup work_dir) my_delivered my_state) (\<lambda>my_state.
     let my_unprocessed =
           difference (difference (py_set (keys src_state)) (py_set (keys my_state)))
             (py_set (keys target)) in
     bnd (for_each (download_parts work_dir src_state) my_unprocessed my_state) (\<lambda>_.
     ret ())))))"

subsection \<open>\<^verbatim>\<open>reassemble\<close>\<close>

text \<open>The body of \<^verbatim>\<open>for origin_path, part_paths in src_state.items()\<close>; \<open>0o444\<close> is 292.\<close>

definition reassemble_item :: "string \<Rightarrow> string \<Rightarrow> manifest \<Rightarrow> string \<times> entry \<Rightarrow> unit \<Rightarrow> unit io" where
  "reassemble_item work_dir dst_dir origin_state item u =
     (case item of (origin_path, part_paths) \<Rightarrow>
     bnd (logging INFO ''Processing {} from {} parts''
            [PStr origin_path, PInt (int (length (iter part_paths)))]) (\<lambda>_.
     let output_path = Path2 work_dir (name origin_path);
         cat_cmd = [''cat''] @ sorted_py (iter part_paths);
         zstd_cmd = [''zstd'', ''--quiet'', ''--force'', ''--decompress'', ''-o'', output_path] in
     bnd (run_pipeline cat_cmd zstd_cmd) (\<lambda>_.
     bnd (lift (getitem origin_state origin_path)) (\<lambda>origin_file.
     bnd (lift (field origin_file atime)) (\<lambda>a.
     bnd (lift (field origin_file mtime)) (\<lambda>m.
     bnd (os_utime output_path a m) (\<lambda>_.
     bnd (chmod output_path 292) (\<lambda>_.
     let target_path = Path2 dst_dir (name output_path) in
     bnd (exists target_path) (\<lambda>e.
     if e then logging ERROR ''{} exists'' [PStr target_path]
     else
       bnd (logging INFO ''{} has been reassembled'' [PStr (Path2 dst_dir (name output_path))]) (\<lambda>_.
       rename output_path (Path2 dst_dir (name output_path))))))))))))"

definition reassemble :: "string \<Rightarrow> string \<Rightarrow> unit io" where
  "reassemble work_dir dst_dir =
     bnd (mkdir work_dir True) (\<lambda>_.
     bnd (mkdir dst_dir True) (\<lambda>_.
     bnd (get_from_json ''download.json'' None) (\<lambda>src_state.
     bnd (get_from_json ''origin.json'' None) (\<lambda>origin_state.
     for_each (reassemble_item work_dir dst_dir origin_state) src_state ()))))"

subsection \<open>\<^verbatim>\<open>upload\<close>\<close>

text \<open>The body of \<^verbatim>\<open>for fname in my_delivered\<close>.\<close>

definition upload_cleanup :: "string \<Rightarrow> manifest \<Rightarrow> manifest io" where
  "upload_cleanup fname my_state =
     bnd (lift (getitem my_state fname)) (\<lambda>ks.
     bnd (for_each (\<lambda>key u.
            bnd (logging INFO ''Cleaning up {}'' [PStr key]) (\<lambda>_. delete_object key))
          (iter ks) ()) (\<lambda>_.
     bnd (lift (pop my_state fname)) (\<lambda>my_state.
     bnd (put_as_json my_state ''upload.json'') (\<lambda>_.
     ret my_state))))"

text \<open>The body of \<^verbatim>\<open>for part_path in src_state[fname]\<close>.\<close>

definition upload_part :: "string list \<Rightarrow> string \<Rightarrow> string \<Rightarrow> manifest \<Rightarrow> manifest io" where
  "upload_part uploaded_parts fname part_path my_state =
     (let key = ''parts'' @ part_path in
      if key \<in> set uploaded_parts then
        bnd (logging WARN ''Key {} already uploaded'' [PStr key]) (\<lambda>_. ret my_state)
      else
        bnd (logging INFO ''Uploading {} as {}'' [PStr part_path, PStr key]) (\<lambda>_.
        bnd (upload_file part_path key) (\<lambda>_.
        lift (append_item my_state fname key))))"

text \<open>The body of \<^verbatim>\<open>for fname in my_unprocessed\<close>.\<close>

definition upload_parts :: "string list \<Rightarrow> manifest \<Rightarrow> string \<Rightarrow> manifest \<Rightarrow> manifest io" where
  "upload_parts uploaded_parts src_state fname my_state =
     (let my_state = setdefault my_state fname (Parts []) in
      bnd (lift (getitem src_state fname)) (\<lambda>part_paths.
      bnd (for_each (upload_part uploaded_parts fname) (iter part_paths) my_state) (\<lambda>my_state.
      bnd (put_as_json my_state ''upload.json'') (\<lambda>_.
      ret my_state))))"

definition upload :: "bool \<Rightarrow> unit io" where
  "upload dry_run =
     bnd (get_from_json ''upload.json'' (Some [])) (\<lambda>my_state.
     bnd (get_from_json ''disassemble.json'' (Some [])) (\<lambda>src_state.
     bnd (get_from_json ''target.json'' None) (\<lambda>target.
     let my_delivered = intersection (py_set (keys my_state)) (keys target);
         my_unprocessed =
           difference (difference (difference (py_set (keys src_state)) (py_set (keys my_state)))
             (py_set (keys target))) (py_set my_delivered) in
     if dry_run then
       bnd (logging INFO ''Dry run: would have cleaned-up {}'' [PSet my_delivered]) (\<lambda>_.
       logging INFO ''Dry run: would have processed {}'' [PSet my_unprocessed])
     else
       bnd (for_each upload_cleanup my_delivered my_state) (\<lambda>my_state.
       bnd (list_keys ''parts'') (\<lambda>uploaded_parts.
       bnd (for_each (upload_parts uploaded_parts src_state) my_unprocessed my_state) (\<lambda>_.
       ret ()))))))"

section \<open>The stages of \<^verbatim>\<open>cta_ingest/__main__.py\<close>\<close>

subsection \<open>\<^verbatim>\<open>disassemble\<close>\<close>

definition disassemble_cleanup_main :: "string \<Rightarrow> string \<Rightarrow> manifest \<Rightarrow> manifest io" where
  "disassemble_cleanup_main work_dir fname my_state =
     bnd (rmdirr (Path2 work_dir fname)) (\<lambda>_.
     bnd (lift (pop my_state fname)) (\<lambda>my_state.
     bnd (put_as_json my_state ''disassemble.json'') (\<lambda>_.
     ret my_state)))"

definition disassemble_split_main :: "string \<Rightarrow> manifest \<Rightarrow> string \<Rightarrow> manifest \<Rightarrow> manifest io" where
  "disassemble_split_main work_dir origin fname my_state =
     (let chunk_dir = Path2 work_dir fname in
     bnd (exists chunk_dir) (\<lambda>e.
     bnd (if e then rmdirr chunk_dir else ret ()) (\<lambda>_.
     bnd (mkdir chunk_dir False) (\<lambda>_.
     bnd (lift (getitem origin fname)) (\<lambda>origin_file.
     bnd (lift (field origin_file path)) (\<lambda>origin_path.
     let zstd_cmd = [''nice'', ''-n'', ''19'', ''zstd'', ''--stdout'', origin_path];
         split_cmd = [''split'', ''-b'', str_int (10 * 10 ^ 6), ''-'', chunk_dir @ ''/''] in
     bnd (run_pipeline_main zstd_cmd split_cmd) (\<lambda>_.
     bnd (iterdir chunk_dir) (\<lambda>fs.
     let my_state = AList.update fname (Parts fs) my_state in
     bnd (put_as_json my_state ''disassemble.json'') (\<lambda>_.
     ret my_state)))))))))"

definition disassemble_main :: "string \<Rightarrow> unit io" where
  "disassemble_main work_dir =
     bnd (get_from_json ''disassemble.json'' (Some [])) (\<lambda>my_state.
     bnd (get_from_json ''origin.json'' (Some [])) (\<lambda>origin.
     bnd (get_from_json ''target.json'' (Some [])) (\<lambda>target.
     let my_delivered = intersection (py_set (keys my_state)) (keys target) in
     bnd (for_each (disassemble_cleanup_main work_dir) my_delivered my_state) (\<lambda>my_state.
     let my_unprocessed =
           difference (difference (py_set (keys origin)) (py_set (keys my_state)))
             (py_set (keys target)) in
     bnd (for_each (disassemble_split_main work_dir origin) my_unprocessed my_state) (\<lambda>_.
     ret ())))))"

subsection \<open>\<^verbatim>\<open>download\<close>\<close>

definition download_cleanup_main :: "string \<Rightarrow> string \<Rightarrow> manifest \<Rightarrow> manifest io" where
  "download_cleanup_main work_dir fname my_state =
     bnd (rmdirr (Path2 work_dir fname)) (\<lambda>_.
     bnd (lift (pop my_state fname)) (\<lambda>my_state.
     bnd (put_as_json my_state ''download.json'') (\<lambda>_.
     ret my_state)))"

definition download_part_main :: "string \<Rightarrow> string \<Rightarrow> string \<Rightarrow> manifest \<Rightarrow> manifest io" where
  "download_part_main chunks_dir origin_path part_key my_state =
     (let dst_path = Path2 chunks_dir (name part_key) in
     bnd (download_file part_key dst_path) (\<lambda>_.
     lift (append_item my_state origin_path dst_path)))"

definition download_parts_main :: "string \<Rightarrow> manifest \<Rightarrow> string \<Rightarrow> manifest \<Rightarrow> manifest io" where
  "download_parts_main work_dir src_state origin_path my_state =
     bnd (lift (getitem src_state origin_path)) (\<lambda>part_keys.
     let my_state = setdefault my_state origin_path (Parts []);
         chunks_dir = Path2 work_dir origin_path in
     bnd (mkdir chunks_dir True) (\<lambda>_.
     bnd (for_each (download_part_main chunks_dir origin_path) (iter part_keys) my_state) (\<lambda>my_state.
     bnd (put_as_json my_state ''download.json'') (\<lambda>_.
     ret my_state))))"

definition download_main :: "string \<Rightarrow> unit io" where
  "download_main work_dir =
     bnd (get_from_json ''download.json'' (Some [])) (\<lambda>my_state.
     bnd (get_from_json ''upload.json'' (Some [])) (\<lambda>src_state.
     bnd (get_from_json ''target.json'' (Some [])) (\<lambda>target.
     let my_delivered = intersection (py_set (keys my_state)) (keys target) in
     bnd (for_each (download_cleanup_main work_dir) my_delivered my_state) (\<lambda>my_state.
     let my_unprocessed =
           difference (difference (py_set (keys src_state)) (py_set (keys my_state)))
             (py_set (keys target)) in
     bnd (for_each (download_parts_main work_dir src_state) my_unprocessed my_state) (\<lambda>_.
     ret ())))))"

subsection \<open>\<^verbatim>\<open>reassemble\<close>\<close>

definition reassemble_item_main :: "string \<Rightarrow> string \<Rightarrow> manifest \<Rightarrow> string \<times> entry \<Rightarrow> unit \<Rightarrow> unit io" where
  "reassemble_item_main work_dir dst_dir origin_state item u =
     (case item of (origin_path, part_paths) \<Rightarrow>
     let output_path = Path2 work_dir (name origin_path) in
     bnd (lift (list_plus [''cat''] part_paths)) (\<lambda>cat_cmd.
     let zstd_cmd = [''zstd'', ''--quiet'', ''--force'', ''--decompress'', ''-o'', output_path] in
     bnd (run_pipeline_main cat_cmd zstd_cmd) (\<lambda>_.
     bnd (lift (getitem origin_state origin_path)) (\<lambda>origin_file.
     bnd (lift (field origin_file atime)) (\<lambda>a.
     bnd (lift (field origin_file mtime)) (\<lambda>m.
     bnd (os_utime output_path a m) (\<lambda>_.
     bnd (chmod output_path 292) (\<lambda>_.
     let target_path = Path2 dst_dir (name output_path) in
     bnd (exists target_path) (\<lambda>e.
     if e then ret ()
     else rename output_path (Path2 dst_dir (name output_path)))))))))))"

definition reassemble_main :: "string \<Rightarrow> string \<Rightarrow> unit io" where
  "reassemble_main work_dir dst_dir =
     bnd (mkdir work_dir True) (\<lambda>_.
     bnd (mkdir dst_dir True) (\<lambda>_.
     bnd (get_from_json ''download.json'' None) (\<lambda>src_state.
     bnd (get_from_json ''origin.json'' None) (\<lambda>origin_state.
     for_each (reassemble_item_main work_dir dst_dir origin_state) src_state ()))))"

subsection \<open>\<^verbatim>\<open>upload\<close>\<close>

definition upload_cleanup_main :: "string \<Rightarrow> manifest \<Rightarrow> manifest io" where
  "upload_cleanup_main fname my_state =
     bnd (lift (getitem my_state fname)) (\<lambda>ks.
     bnd (for_each (\<lambda>key u. delete_object key) (iter ks) ()) (\<lambda>_.
     bnd (lift (pop my_state fname)) (\<lambda>my_state.
     bnd (put_as_json my_state ''upload.json'') (\<lambda>_.
     ret my_state))))"

definition upload_part_main :: "string list \<Rightarrow> string \<Rightarrow> string \<Rightarrow> manifest \<Rightarrow> manifest io" where
  "upload_part_main uploaded_parts fname part_path my_state =
     (let key = ''parts'' @ part_path in
      if key \<in> set uploaded_parts then ret my_state
      else
        bnd (upload_file part_path key) (\<lambda>_.
        lift (append_item my_state fname key)))"

definition upload_parts_main :: "string list \<Rightarrow> manifest \<Rightarrow> string \<Rightarrow> manifest \<Rightarrow> manifest io" where
  "upload_parts_main uploaded_parts src_state fname my_state =
     (let my_state = setdefault my_state fname (Parts []) in
      bnd (lift (getitem src_state fname)) (\<lambda>part_paths.
      bnd (for_each (upload_part_main uploaded_parts fname) (iter part_paths) my_state) (\<lambda>my_state.
      bnd (put_as_json my_state ''upload.json'') (\<lambda>_.
      ret my_state))))"

definition upload_main :: "unit io" where
  "upload_main =
     bnd (get_from_json ''upload.json'' (Some [])) (\<lambda>my_state.
     bnd (get_from_json ''disassemble.json'' (Some [])) (\<lambda>src_state.
     bnd (get_from_json ''target.json'' (Some [])) (\<lambda>target.
     let my_delivered = intersection (py_set (keys my_state)) (keys target) in
     bnd (for_each upload_cleanup_main my_delivered my_state) (\<lambda>my_state.
     bnd (list_keys ''parts'') (\<lambda>uploaded_parts.
     let my_unprocessed = difference (py_set (keys src_state)) (py_set (keys target)) in
     bnd (for_each (upload_parts_main uploaded_parts src_state) my_unprocessed my_state) (\<lambda>_.
     ret ()))))))"

section \<open>The Progress Meter\<close>

text \<open>
  Byte counts are integers; the readings of the clock and the update interval are floats,
  taken here as rationals. \<^verbatim>\<open>/\<close> is Python's true division, which raises
  \<^verbatim>\<open>ZeroDivisionError\<close> on a zero divisor. The clock reading \<open>now\<close> of a call is an
  argument. A line written to the standard output is kept as the values formatted into it.
\<close>

record ProgressMeter =
  label :: string
  total_size :: int
  count_bytes :: int
  first_time :: "rat option"
  first_count :: "int option"
  update_interval :: rat
  last_update_time :: "rat option"
  last_update_count :: "int option"

definition init_meter :: "string \<Rightarrow> int \<Rightarrow> rat \<Rightarrow> ProgressMeter" where
  "init_meter lbl sz interval =
     \<lparr>label = lbl, total_size = sz, count_bytes = 0, first_time = None, first_count = None,
      update_interval = interval, last_update_time = None, last_update_count = None\<rparr>"

datatype rsize = B int | KiB rat | MiB rat | GiB rat | TiB rat

datatype rtime = HMS int int int | MS int int | S int

text \<open>\<^verbatim>\<open>int(x)\<close> truncates towards zero; \<^verbatim>\<open>round(x)\<close> rounds half to even.\<close>

definition py_int :: "rat \<Rightarrow> int" where
  "py_int x = (if 0 \<le> x then \<lfloor>x\<rfloor> else \<lceil>x\<rceil>)"

definition py_round :: "rat \<Rightarrow> int" where
  "py_round x =
     (let f = \<lfloor>x\<rfloor>; d = x - of_int f in
      if d < 1 / 2 then f else if 1 / 2 < d then f + 1 else if even f then f else f + 1)"

definition readable_size :: "rat \<Rightarrow> rsize" where
  "readable_size sz =
     (if sz < 10 ^ 3 then B (py_int sz)
      else if sz < 10 ^ 6 then KiB (sz / 10 ^ 3)
      else if sz < 10 ^ 9 then MiB (sz / 10 ^ 6)
      else if sz < 10 ^ 12 then GiB (sz / 10 ^ 9)
      else TiB (sz / 10 ^ 12))"

definition readable_time :: "rat \<Rightarrow> rtime" where
  "readable_time t =
     (let time = py_round t;
          seconds = time mod 60;
          minutes = (time div 60) mod 60;
          hours = time div (60 * 60) in
      if hours \<noteq> 0 then HMS hours minutes seconds
      else if minutes \<noteq> 0 then MS minutes seconds
      else S seconds)"

definition truediv :: "rat \<Rightarrow> rat \<Rightarrow> error + rat" where
  "truediv a b = (if b = 0 then Inl ZeroDivisionError else Inr (a / b))"

datatype line =
    Summary string rsize rtime
  | Progress string rtime rsize rsize rat rsize rsize "rtime list"

text \<open>The first part of \<^verbatim>\<open>__call__\<close>, up to the updated count; \<open>start\<close> is the value
  given to \<^verbatim>\<open>_last_update_time\<close> at the first call.\<close>

definition observe :: "rat \<Rightarrow> int \<Rightarrow> rat \<Rightarrow> ProgressMeter \<Rightarrow> ProgressMeter" where
  "observe now num_bytes start m =
     (let m = (if first_time m = None
               then m\<lparr>first_time := Some now, first_count := Some num_bytes,
                      last_update_time := Some start, last_update_count := Some num_bytes\<rparr>
               else m)
      in m\<lparr>count_bytes := count_bytes m + num_bytes\<rparr>)"

definition and_then :: "error + 'a \<Rightarrow> ('a \<Rightarrow> error + 'b) \<Rightarrow> error + 'b" where
  "and_then r f = (case r of Inl e \<Rightarrow> Inl e | Inr x \<Rightarrow> f x)"

text \<open>The periodic line of \<^verbatim>\<open>cta-ingest.py\<close>, computed when
  \<^verbatim>\<open>t_since_update >= self._update_interval\<close>.\<close>

definition progress_line :: "rat \<Rightarrow> rat \<Rightarrow> ProgressMeter \<Rightarrow> error + line" where
  "progress_line t_observed t_since_update m =
     and_then (truediv (of_int (count_bytes m)) (of_int (total_size m))) (\<lambda>q.
     let percent = q * 100;
         update_delta = count_bytes m - the (last_update_count m) in
     and_then (truediv (of_int update_delta) t_since_update) (\<lambda>update_rate.
     and_then (truediv (of_int (count_bytes m)) t_observed) (\<lambda>average_rate.
     and_then (truediv (of_int (total_size m - count_bytes m)) update_rate) (\<lambda>t_remaining_cur.
     Inr (Progress (label m) (readable_time t_observed)
            (readable_size (of_int (count_bytes m)))
            (readable_size (of_int (total_size m))) percent
            (readable_size update_rate) (readable_size average_rate)
            [readable_time t_remaining_cur])))))"

text \<open>The periodic line of \<^verbatim>\<open>cta_ingest/__main__.py\<close>\<close>

definition progress_line_main :: "rat \<Rightarrow> rat \<Rightarrow> ProgressMeter \<Rightarrow> error + line" where
  "progress_line_main t_observed t_since_update m =
     and_then (truediv (of_int (count_bytes m)) (of_int (total_size m))) (\<lambda>q.
     let percent = q * 100;
         update_delta = count_bytes m - the (last_update_count m) in
     and_then (truediv (of_int update_delta) t_since_update) (\<lambda>update_rate.
     and_then (truediv (of_int (count_bytes m)) t_observed) (\<lambda>average_rate.
     and_then (truediv (of_int (total_size m - count_bytes m)) average_rate) (\<lambda>t_remaining_avg.
     and_then (truediv (of_int (total_size m - count_bytes m)) update_rate) (\<lambda>t_remaining_cur.
     Inr (Progress (label m) (readable_time t_observed)
            (readable_size (of_int (count_bytes m)))
            (readable_size (of_int (total_size m))) percent
            (readable_size update_rate) (readable_size average_rate)
            [readable_time t_remaining_cur, readable_time t_remaining_avg]))))))"

text \<open>\<^verbatim>\<open>ProgressMeter.__call__\<close> of \<^verbatim>\<open>cta-ingest.py\<close>: the result is the line
  written, if any, or the exception; the meter is returned as the call leaves it.\<close>

definition call :: "rat \<Rightarrow> int \<Rightarrow> ProgressMeter \<Rightarrow> (error + line option) \<times> ProgressMeter" where
  "call now num_bytes m0 =
     (let m = observe now num_bytes (now - update_interval m0 + 10) m0;
          t_observed = now - the (first_time m);
          t_since_update = now - the (last_update_time m)
      in
      if count_bytes m = total_size m then
        (Inr (Some (Summary (label m) (readable_size (of_int (total_size m)))
                      (readable_time t_observed))), m)
      else if update_interval m \<le> t_since_update then
        (case progress_line t_observed t_since_update m of
           Inl e \<Rightarrow> (Inl e, m)
         | Inr l \<Rightarrow>
             (Inr (Some l), m\<lparr>last_update_time := Some now, last_update_count := Some (count_bytes m)\<rparr>))
      else (Inr None, m))"

text \<open>\<^verbatim>\<open>ProgressMeter.__call__\<close> of \<^verbatim>\<open>cta_ingest/__main__.py\<close>\<close>

definition call_main :: "rat \<Rightarrow> int \<Rightarrow> ProgressMeter \<Rightarrow> (error + line option) \<times> ProgressMeter" where
  "call_main now num_bytes m0 =
     (let m = observe now num_bytes now m0;
          t_observed = now - the (first_time m);
          t_since_update = now - the (last_update_time m)
      in
      if count_bytes m = total_size m then
        (Inr (Some (Summary (label m) (readable_size (of_int (total_size m)))
                      (readable_time t_observed))), m)
      else if update_interval m \<le> t_since_update then
        (case progress_line_main t_observed t_since_update m of
           Inl e \<Rightarrow> (Inl e, m)
         | Inr l \<Rightarrow>
             (Inr (Some l), m\<lparr>last_update_time := Some now, last_update_count := Some (count_bytes m)\<rparr>))
      else (Inr None, m))"

text \<open>A sequence of callbacks, each with its clock reading: the lines written, or the
  exception of the first call that raises.\<close>

fun calls :: "(rat \<times> int) list \<Rightarrow> ProgressMeter \<Rightarrow> error + line list" where
  "calls [] m = Inr []"
| "calls ((now, num_bytes) # cs) m =
     (case call now num_bytes m of
        (Inl e, m') \<Rightarrow> Inl e
      | (Inr l, m') \<Rightarrow>
          (case calls cs m' of
             Inl e \<Rightarrow> Inl e
           | Inr ls \<Rightarrow> Inr ((case l of None \<Rightarrow> [] | Some x \<Rightarrow> [x]) @ ls)))"

fun calls_main :: "(rat \<times> int) list \<Rightarrow> ProgressMeter \<Rightarrow> error + line list" where
  "calls_main [] m = Inr []"
| "calls_main ((now, num_bytes) # cs) m =
     (case call_main now num_bytes m of
        (Inl e, m') \<Rightarrow> Inl e
      | (Inr l, m') \<Rightarrow>
          (case calls_main cs m' of
             Inl e \<Rightarrow> Inl e
           | Inr ls \<Rightarrow> Inr ((case l of None \<Rightarrow> [] | Some x \<Rightarrow> [x]) @ ls)))"

section \<open>Notions used in the properties\<close>

text \<open>The events a computation adds to the trace, and a bound on what they can be.\<close>

definition new_events :: "'a io \<Rightarrow> world \<Rightarrow> event list" where
  "new_events m w = drop (length (trace w)) (trace (snd (m w)))"

definition emits :: "(event \<Rightarrow> bool) \<Rightarrow> 'a io \<Rightarrow> bool" where
  "emits P m = (\<forall>w. \<exists>evs. trace (snd (m w)) = trace w @ evs \<and> list_all P evs)"

definition is_put :: "event \<Rightarrow> bool" where
  "is_put ev = (case ev of S3Put k b \<Rightarrow> True | _ \<Rightarrow> False)"

text \<open>Example worlds: a store that fails no call, programs that exit with a given code
  and leave the files alone.\<close>

definition no_fault :: "event \<Rightarrow> error option" where
  "no_fault ev = None"

definition exits :: "int \<Rightarrow> string list \<Rightarrow> string list \<Rightarrow> (string \<times> inode) list \<Rightarrow> int \<times> (string \<times> inode) list" where
  "exits rc cmd1 cmd2 fs = (rc, fs)"

definition empty_world :: world where
  "empty_world = \<lparr>bucket = [], fault = no_fault, files = [], dirs = [], procs = exits 0, trace = []\<rparr>"

text \<open>The states of the pipeline after \<^verbatim>\<open>disassemble\<close> split one file into two parts:
  nothing uploaded yet; the first part uploaded by a run that was interrupted before it
  persisted its ledger; both parts uploaded and recorded.\<close>

definition part_file :: inode where
  "part_file = \<lparr>content = Bytes ''zstd'', utime = None, mode = None\<rparr>"

definition split_world :: world where
  "split_world =
     \<lparr>bucket = [(''target.json'', Json []),
                (''disassemble.json'', Json [(''a.dat'', Parts [''/w/a.dat/aa'', ''/w/a.dat/ab''])])],
      fault = no_fault,
      files = [(''/w/a.dat/aa'', part_file), (''/w/a.dat/ab'', part_file)],
      dirs = [''/w'', ''/w/a.dat''],
      procs = exits 0,
      trace = []\<rparr>"

definition interrupted_world :: world where
  "interrupted_world =
     split_world\<lparr>bucket := bucket split_world @ [(''parts/w/a.dat/aa'', Bytes ''zstd'')]\<rparr>"

definition uploaded_world :: world where
  "uploaded_world =
     split_world\<lparr>bucket := bucket split_world @
       [(''parts/w/a.dat/aa'', Bytes ''zstd''), (''parts/w/a.dat/ab'', Bytes ''zstd''),
        (''upload.json'', Json [(''a.dat'', Parts [''parts/w/a.dat/aa'', ''parts/w/a.dat/ab''])])]\<rparr>"

text \<open>\<open>transfers ks ev\<close>: the event is the upload of a file under one of the keys \<open>ks\<close>.\<close>

definition transfers :: "string list \<Rightarrow> event \<Rightarrow> bool" where
  "transfers ks ev = (case ev of S3UploadFile p k \<Rightarrow> k \<in> set ks | _ \<Rightarrow> False)"

text \<open>\<open>fetched w key dflt m\<close>: in the world \<open>w\<close>, \<^verbatim>\<open>get_from_json(key, default=...)\<close> returns
  the manifest \<open>m\<close>; \<open>after_fetches w ks\<close>: the world once the keys \<open>ks\<close> were fetched.\<close>

definition fetched :: "world \<Rightarrow> string \<Rightarrow> manifest option \<Rightarrow> manifest \<Rightarrow> bool" where
  "fetched w key dflt m = (fst (get_from_json key dflt w) = Inr m)"

definition after_fetches :: "world \<Rightarrow> string list \<Rightarrow> world" where
  "after_fetches w ks = w\<lparr>trace := trace w @ map S3Get ks\<rparr>"

definition is_logging :: "event \<Rightarrow> bool" where
  "is_logging ev = (case ev of Logging l f a \<Rightarrow> True | _ \<Rightarrow> False)"

definition is_rename :: "event \<Rightarrow> bool" where
  "is_rename ev = (case ev of Rename p q \<Rightarrow> True | _ \<Rightarrow> False)"

text \<open>Programs of which the second writes the file named by its last argument and exits
  with 0; the pipeline after \<^verbatim>\<open>download\<close> fetched the two parts of a file, the ledger
  listing the second part first; and the same with a file of that name at the destination.\<close>

definition writes_output :: "string list \<Rightarrow> string list \<Rightarrow> (string \<times> inode) list \<Rightarrow> int \<times> (string \<times> inode) list" where
  "writes_output cmd1 cmd2 fs =
     (0, AList.update (last cmd2) \<lparr>content = Bytes ''data'', utime = None, mode = None\<rparr> fs)"

definition downloaded_world :: world where
  "downloaded_world =
     \<lparr>bucket = [(''origin.json'',
                  Json [(''a.dat'', Desc \<lparr>path = ''/data/a.dat'', size_bytes = 25000000,
                                          mtime = 1, atime = 2, ts = Some 3\<rparr>)]),
                (''download.json'', Json [(''a.dat'', Parts [''/d/a.dat/ab'', ''/d/a.dat/aa''])])],
      fault = no_fault,
      files = [(''/d/a.dat/aa'', part_file), (''/d/a.dat/ab'', part_file)],
      dirs = [''/d'', ''/d/a.dat'', ''/r'', ''/dst''],
      procs = writes_output,
      trace = []\<rparr>"

definition conflict_world :: world where
  "conflict_world =
     downloaded_world\<lparr>files := files downloaded_world @
       [(''/dst/a.dat'', \<lparr>content = Bytes ''old'', utime = Some (2, 1), mode = Some 292\<rparr>)]\<rparr>"

text \<open>The paths and the second command of \<^verbatim>\<open>reassemble\<close> for a logical-id, and the files as
  the pipeline leaves them.\<close>

definition output_path :: "string \<Rightarrow> string \<Rightarrow> string" where
  "output_path work_dir origin_path = Path2 work_dir (name origin_path)"

definition target_path :: "string \<Rightarrow> string \<Rightarrow> string \<Rightarrow> string" where
  "target_path work_dir dst_dir origin_path = Path2 dst_dir (name (output_path work_dir origin_path))"

definition zstd_cmd :: "string \<Rightarrow> string list" where
  "zstd_cmd out = [''zstd'', ''--quiet'', ''--force'', ''--decompress'', ''-o'', out]"

definition decompressed :: "world \<Rightarrow> string list \<Rightarrow> string \<Rightarrow> (string \<times> inode) list" where
  "decompressed w cat_cmd out = snd (procs w cat_cmd (zstd_cmd out) (files w))"

section \<open>Properties\<close>

subsection \<open>The monad and the trace\<close>

lemmas io_defs = ret_def raise_def bnd_def emit_def lift_def

lemma bnd_Inr:
  "bnd m f w = (Inr y, w') \<Longrightarrow> \<exists>x w1. m w = (Inr x, w1) \<and> f x w1 = (Inr y, w')"
  by (auto simp: bnd_def split: prod.splits sum.splits)

lemma bnd_eq: "m w = (Inr x, w1) \<Longrightarrow> bnd m f w = f x w1"
  by (simp add: bnd_def)

lemma bnd_err: "m w = (Inl e, w1) \<Longrightarrow> bnd m f w = (Inl e, w1)"
  by (simp add: bnd_def)

subsection \<open>\<^verbatim>\<open>get_from_json\<close>\<close>

lemma get_from_json_snd: "snd (get_from_json key dflt w) = w\<lparr>trace := trace w @ [S3Get key]\<rparr>"
  by (simp add: get_from_json_def obj_get_def s3_call_def io_defs
      split: option.splits sum.splits error.splits prod.splits)

lemma get_from_json_fst_trace:
  "fst (get_from_json key dflt (w\<lparr>trace := t\<rparr>)) = fst (get_from_json key dflt w)"
  by (simp add: get_from_json_def obj_get_def s3_call_def io_defs
      split: option.splits sum.splits error.splits prod.splits)

lemma get_from_json_bnd:
  assumes "fst (get_from_json key dflt w) = Inr x"
  shows "bnd (get_from_json key dflt) f w = f x (w\<lparr>trace := trace w @ [S3Get key]\<rparr>)"
proof -
  have "get_from_json key dflt w = (Inr x, w\<lparr>trace := trace w @ [S3Get key]\<rparr>)"
    using assms get_from_json_snd[of key dflt w] by (cases "get_from_json key dflt w") simp
  then show ?thesis by (rule bnd_eq)
qed

lemma get_from_json_bnd_err:
  assumes "fst (get_from_json key dflt w) = Inl e"
  shows "bnd (get_from_json key dflt) f w = (Inl e, w\<lparr>trace := trace w @ [S3Get key]\<rparr>)"
proof -
  have "get_from_json key dflt w = (Inl e, w\<lparr>trace := trace w @ [S3Get key]\<rparr>)"
    using assms get_from_json_snd[of key dflt w] by (cases "get_from_json key dflt w") simp
  then show ?thesis by (rule bnd_err)
qed

lemma get_from_json_absent:
  "fault w (S3Get key) = None \<Longrightarrow> map_of (bucket w) key = None \<Longrightarrow>
     fst (get_from_json key dflt w) = (case dflt of None \<Rightarrow> Inl NoSuchKeyError | Some d \<Rightarrow> Inr d)"
  by (simp add: get_from_json_def obj_get_def s3_call_def io_defs split: option.splits)

text \<open>
  C6. When the store answers the fetch with the missing-key error (as it does for an
  absent blob), \<^verbatim>\<open>get_from_json\<close> returns the default if one was supplied and raises
  \<^verbatim>\<open>NoSuchKeyError\<close> if none was; in every other case the default plays no role; when
  the blob is there, the result is the decoded body. The error aborts the stage:
  \<^verbatim>\<open>disassemble\<close> of \<^verbatim>\<open>cta-ingest.py\<close>, which fetches \<^verbatim>\<open>target.json\<close> without a
  default, ends with \<^verbatim>\<open>NoSuchKeyError\<close> after its three fetches and nothing else.
\<close>

theorem get_from_json_default:
  "(fst (obj_get key w) = Inl (ClientError ''NoSuchKey'') \<longrightarrow>
      fst (get_from_json key (Some d) w) = Inr d \<and>
      fst (get_from_json key None w) = Inl NoSuchKeyError)
   \<and> (fst (obj_get key w) \<noteq> Inl (ClientError ''NoSuchKey'') \<longrightarrow>
      get_from_json key dflt w = get_from_json key None w)
   \<and> (fault w (S3Get key) = None \<and> map_of (bucket w) key = None \<longrightarrow>
      fst (obj_get key w) = Inl (ClientError ''NoSuchKey''))
   \<and> (fault w (S3Get key) = None \<and> map_of (bucket w) key = Some b \<longrightarrow>
      fst (get_from_json key dflt w) = json_loads b)
   \<and> json_loads (Json m) = Inr m
   \<and> (fst (get_from_json ''disassemble.json'' (Some []) w) = Inr my_state \<and>
      fst (get_from_json ''origin.json'' (Some []) w) = Inr origin \<and>
      fault w (S3Get ''target.json'') = None \<and> map_of (bucket w) ''target.json'' = None \<longrightarrow>
      disassemble work_dir part_size dry_run w =
        (Inl NoSuchKeyError,
         w\<lparr>trace := trace w @ [S3Get ''disassemble.json'', S3Get ''origin.json'', S3Get ''target.json'']\<rparr>))"
proof (intro conjI impI)
  assume "fst (obj_get key w) = Inl (ClientError ''NoSuchKey'')"
  then show "fst (get_from_json key (Some d) w) = Inr d"
    by (cases "obj_get key w") (simp add: get_from_json_def)
next
  assume "fst (obj_get key w) = Inl (ClientError ''NoSuchKey'')"
  then show "fst (get_from_json key None w) = Inl NoSuchKeyError"
    by (cases "obj_get key w") (simp add: get_from_json_def)
next
  assume "fst (obj_get key w) \<noteq> Inl (ClientError ''NoSuchKey'')"
  then show "get_from_json key dflt w = get_from_json key None w"
    by (cases "obj_get key w") (auto simp: get_from_json_def split: sum.splits error.splits)
next
  assume "fault w (S3Get key) = None \<and> map_of (bucket w) key = None"
  then show "fst (obj_get key w) = Inl (ClientError ''NoSuchKey'')"
    by (simp add: obj_get_def s3_call_def io_defs)
next
  assume "fault w (S3Get key) = None \<and> map_of (bucket w) key = Some b"
  then show "fst (get_from_json key dflt w) = json_loads b"
    by (simp add: get_from_json_def obj_get_def s3_call_def io_defs)
next
  show "json_loads (Json m) = Inr m" by (simp add: json_loads_def)
next
  assume a: "fst (get_from_json ''disassemble.json'' (Some []) w) = Inr my_state \<and>
      fst (get_from_json ''origin.json'' (Some []) w) = Inr origin \<and>
      fault w (S3Get ''target.json'') = None \<and> map_of (bucket w) ''target.json'' = None"
  let ?w1 = "w\<lparr>trace := trace w @ [S3Get ''disassemble.json'']\<rparr>"
  let ?w2 = "w\<lparr>trace := trace w @ [S3Get ''disassemble.json'', S3Get ''origin.json'']\<rparr>"
  have g2: "fst (get_from_json ''origin.json'' (Some []) ?w1) = Inr origin"
    using a by (simp add: get_from_json_fst_trace)
  have g3: "fst (get_from_json ''target.json'' None ?w2) = Inl NoSuchKeyError"
    using a get_from_json_absent[of ?w2 "''target.json''" None] by simp
  show "disassemble work_dir part_size dry_run w =
        (Inl NoSuchKeyError,
         w\<lparr>trace := trace w @ [S3Get ''disassemble.json'', S3Get ''origin.json'', S3Get ''target.json'']\<rparr>)"
    unfolding disassemble_def
    using a by (simp add: get_from_json_bnd[where w = w] get_from_json_bnd[OF g2]
        get_from_json_bnd_err[OF g3])
qed

theorem get_from_json_default_witness:
  "fst (get_from_json ''origin.json'' (Some []) empty_world) = Inr []
   \<and> fst (get_from_json ''target.json'' None empty_world) = Inl NoSuchKeyError
   \<and> get_from_json ''origin.json'' (Some [])
        (empty_world\<lparr>bucket := [(''origin.json'', Json [(''a'', Parts [])])]\<rparr>) =
      get_from_json ''origin.json'' None
        (empty_world\<lparr>bucket := [(''origin.json'', Json [(''a'', Parts [])])]\<rparr>)
   \<and> fst (get_from_json ''origin.json'' (Some [])
        (empty_world\<lparr>bucket := [(''origin.json'', Json [(''a'', Parts [])])]\<rparr>)) =
      Inr [(''a'', Parts [])]
   \<and> disassemble ''/w'' 1024 False empty_world =
        (Inl NoSuchKeyError,
         empty_world\<lparr>trace := [S3Get ''disassemble.json'', S3Get ''origin.json'', S3Get ''target.json'']\<rparr>)"
  using get_from_json_default[where key = "''origin.json''" and w = empty_world and d = "[]"
      and my_state = "[]" and origin = "[]" and work_dir = "''/w''" and part_size = 1024
      and dry_run = False]
    get_from_json_default[where key = "''target.json''" and w = empty_world]
    get_from_json_default[where key = "''origin.json''" and dflt = "Some []"
      and w = "empty_world\<lparr>bucket := [(''origin.json'', Json [(''a'', Parts [])])]\<rparr>"
      and b = "Json [(''a'', Parts [])]"]
  by (simp add: empty_world_def no_fault_def get_from_json_def obj_get_def json_loads_def
      s3_call_def io_defs)

text \<open>
  C10. When the store fails the fetch with a client error, \<^verbatim>\<open>get_from_json\<close> returns the
  default only for the missing-key code with a default supplied; for every other code it
  raises \<^verbatim>\<open>NoSuchKeyError\<close>, default or not, which is the error of a missing blob fetched
  without default.
\<close>

theorem get_from_json_client_error:
  "fault w (S3Get key) = Some (ClientError code) \<Longrightarrow>
     fst (get_from_json key dflt w) =
       (if code = ''NoSuchKey'' \<and> dflt \<noteq> None then Inr (the dflt) else Inl NoSuchKeyError)
     \<and> (code \<noteq> ''NoSuchKey'' \<longrightarrow>
          fst (get_from_json key dflt w) = fst (get_from_json key None empty_world))"
  by (simp add: get_from_json_def obj_get_def s3_call_def io_defs empty_world_def no_fault_def)

theorem get_from_json_client_error_witness:
  "fst (get_from_json ''target.json'' (Some [])
      (empty_world\<lparr>fault := (\<lambda>ev. Some (ClientError ''AccessDenied''))\<rparr>)) = Inl NoSuchKeyError"
  using get_from_json_client_error[of "empty_world\<lparr>fault := (\<lambda>ev. Some (ClientError ''AccessDenied''))\<rparr>"
      "''target.json''" "''AccessDenied''" "Some []"]
  by simp

subsection \<open>The two-process pipeline\<close>

text \<open>
  C7, as amended. The pipeline reads the exit code of the second process only (the exit
  code of the first process is not part of what \<^verbatim>\<open>communicate\<close> returns). When it is
  not zero, \<^verbatim>\<open>_run_pipeline\<close> of \<^verbatim>\<open>cta-ingest.py\<close> raises an exception that carries the
  tag \<^verbatim>\<open>NonZeroReturnCode\<close>, the exit code and both command lines, and
  \<^verbatim>\<open>_run_pipeline\<close> of \<^verbatim>\<open>cta_ingest/__main__.py\<close> raises an exception that carries the
  tag alone; when it is zero, neither raises.
\<close>

theorem run_pipeline_result:
  "fst (run_pipeline cmd1 cmd2 w) =
     (if fst (procs w cmd1 cmd2 (files w)) = 0 then Inr ()
      else Inl (Exception [PStr ''NonZeroReturnCode'', PInt (fst (procs w cmd1 cmd2 (files w))),
                  PList cmd1, PList cmd2]))
   \<and> fst (run_pipeline_main cmd1 cmd2 w) =
     (if fst (procs w cmd1 cmd2 (files w)) = 0 then Inr ()
      else Inl (Exception [PStr ''NonZeroReturnCode'']))"
  by (simp add: run_pipeline_def run_pipeline_main_def communicate_def io_defs split: prod.splits)

text \<open>The exception of \<^verbatim>\<open>cta_ingest/__main__.py\<close> is the same for the exit codes 3 and 5:
  it does not carry the code.\<close>

theorem run_pipeline_main_drops_exit_code:
  "fst (run_pipeline_main [''cat'', ''/w/a/aa''] [''zstd'', ''-o'', ''/w/a''] (empty_world\<lparr>procs := exits 3\<rparr>))
     = Inl (Exception [PStr ''NonZeroReturnCode''])
   \<and> fst (run_pipeline_main [''cat'', ''/w/a/aa''] [''zstd'', ''-o'', ''/w/a''] (empty_world\<lparr>procs := exits 5\<rparr>))
     = Inl (Exception [PStr ''NonZeroReturnCode''])"
  by (simp add: run_pipeline_main_def communicate_def io_defs exits_def empty_world_def)

subsection \<open>The Progress Meter\<close>

text \<open>
  C4. A callback that adds zero bytes, arriving a full update interval after the last
  report, makes the instantaneous rate zero, and the ETA divides by it: the call raises
  \<^verbatim>\<open>ZeroDivisionError\<close>, in both scripts. (The meter of \<^verbatim>\<open>S3_Wrapper\<close> has the interval
  120 in \<^verbatim>\<open>cta-ingest.py\<close> and 0.1 in \<^verbatim>\<open>cta_ingest/__main__.py\<close>.)
\<close>

theorem zero_rate_raises:
  "calls [(0, 10), (200, 0)] (init_meter ''.../w/a.dat/aa'' 100 120) = Inl ZeroDivisionError
   \<and> calls_main [(0, 10), (1, 0)] (init_meter ''.../w/a.dat/aa'' 100 (1 / 10)) = Inl ZeroDivisionError"
  by (simp add: call_def call_main_def init_meter_def observe_def progress_line_def
      progress_line_main_def truediv_def and_then_def Let_def)

text \<open>A negative rate, on the other hand, is reported: the byte count went back by 5.\<close>

lemma negative_rate_reported:
  "calls [(0, 10), (200, - 5)] (init_meter ''.../w/a.dat/aa'' 100 120) =
     Inr [Progress ''.../w/a.dat/aa'' (MS 3 20) (B 5) (B 100) 5 (B 0) (B 0) [HMS (- 2) 21 50]]"
  by (simp add: call_def init_meter_def observe_def progress_line_def truediv_def and_then_def
      Let_def readable_size_def readable_time_def py_round_def py_int_def
      ceiling_eq_iff floor_eq_iff)

subsection \<open>What a computation adds to the trace\<close>

lemma emits_ret: "emits P (ret x)"
  by (simp add: emits_def ret_def)

lemma emits_raise: "emits P (raise e)"
  by (simp add: emits_def raise_def)

lemma emits_lift: "emits P (lift r)"
  by (simp add: emits_def lift_def)

lemma emits_emit: "P ev \<Longrightarrow> emits P (emit ev)"
  by (simp add: emits_def emit_def)

lemma emits_silent: "(\<And>w. trace (snd (g w)) = trace w) \<Longrightarrow> emits P g"
  by (simp add: emits_def)

lemma emits_bnd:
  assumes "emits P m" and "\<And>x. emits P (f x)"
  shows "emits P (bnd m f)"
proof (unfold emits_def, intro allI)
  fix w
  obtain r w1 where mw: "m w = (r, w1)" by (cases "m w")
  from assms(1) obtain e1 where e1: "trace w1 = trace w @ e1" "list_all P e1"
    using mw unfolding emits_def by (metis snd_conv)
  show "\<exists>evs. trace (snd (bnd m f w)) = trace w @ evs \<and> list_all P evs"
  proof (cases r)
    case (Inl e)
    then show ?thesis using mw e1 by (auto simp: bnd_def)
  next
    case (Inr x)
    from assms(2)[of x] obtain e2 where e2: "trace (snd (f x w1)) = trace w1 @ e2" "list_all P e2"
      unfolding emits_def by blast
    have "trace (snd (bnd m f w)) = trace w @ (e1 @ e2)"
      using mw Inr e1 e2 by (simp add: bnd_def)
    moreover have "list_all P (e1 @ e2)" using e1 e2 by simp
    ultimately show ?thesis by blast
  qed
qed

lemma emits_for_each:
  assumes "\<And>x s. emits P (body x s)"
  shows "emits P (for_each body xs s)"
  by (induction xs arbitrary: s) (auto intro: emits_ret emits_bnd assms)

lemma emits_new_events: "emits P m \<Longrightarrow> list_all P (new_events m w)"
  unfolding emits_def new_events_def by (metis append_eq_conv_conj)

lemma emits_run:
  assumes "emits P m" and "m w = (r, w')"
  shows "\<exists>evs. trace w' = trace w @ evs \<and> list_all P evs"
  using assms unfolding emits_def by (metis snd_conv)

lemma emits_call:
  assumes "P ev" and "\<And>w. trace (snd (g w)) = trace w"
  shows "emits P (bnd (emit ev) (\<lambda>_. g))"
  by (intro emits_bnd emits_emit emits_silent assms)

lemma emits_s3_call: "P ev \<Longrightarrow> emits P (s3_call ev)"
  unfolding s3_call_def by (rule emits_call) (auto split: option.splits)

lemma emits_logging: "P (Logging l f a) \<Longrightarrow> emits P (logging l f a)"
  unfolding logging_def by (rule emits_emit)

lemma emits_stat: "P (Stat p) \<Longrightarrow> emits P (stat p)"
  unfolding stat_def by (rule emits_call) auto

lemma emits_upload_file: "P (Stat p) \<Longrightarrow> P (S3UploadFile p k) \<Longrightarrow> emits P (upload_file p k)"
  unfolding upload_file_def
  by (intro emits_bnd emits_stat emits_s3_call emits_silent) (auto split: option.splits)

lemma emits_download_file: "P (S3DownloadFile k p) \<Longrightarrow> emits P (download_file k p)"
  unfolding download_file_def
  by (intro emits_bnd emits_s3_call emits_silent) (auto split: option.splits)

lemma emits_mkdir: "P (Mkdir p) \<Longrightarrow> emits P (mkdir p ok)"
  unfolding mkdir_def by (rule emits_call) auto

lemma put_as_json_Inr:
  "put_as_json st key w = (Inr u, w') \<Longrightarrow> trace w' = trace w @ [S3Put key (Json st)]"
  by (auto simp: put_as_json_def s3_call_def io_defs split: option.splits)

subsection \<open>When the ledgers are persisted\<close>

lemma upload_part_no_put: "emits (\<lambda>ev. \<not> is_put ev) (upload_part up fname p ms)"
  unfolding upload_part_def Let_def
  by (auto intro!: emits_bnd emits_logging emits_upload_file emits_ret emits_lift simp: is_put_def)

lemma upload_part_main_no_put: "emits (\<lambda>ev. \<not> is_put ev) (upload_part_main up fname p ms)"
  unfolding upload_part_main_def Let_def
  by (auto intro!: emits_bnd emits_upload_file emits_ret emits_lift simp: is_put_def)

lemma download_part_no_put: "emits (\<lambda>ev. \<not> is_put ev) (download_part cd op p ms)"
  unfolding download_part_def Let_def
  by (auto intro!: emits_bnd emits_logging emits_download_file emits_lift simp: is_put_def)

lemma download_part_main_no_put: "emits (\<lambda>ev. \<not> is_put ev) (download_part_main cd op p ms)"
  unfolding download_part_main_def Let_def
  by (auto intro!: emits_bnd emits_download_file emits_lift simp: is_put_def)

text \<open>A loop without puts, then one put of the ledger the loop returned.\<close>

lemma loop_then_put:
  assumes e: "\<And>x s. emits (\<lambda>ev. \<not> is_put ev) (body x s)"
    and r: "bnd (for_each body xs ms0)
              (\<lambda>my_state. bnd (put_as_json my_state key) (\<lambda>_. ret my_state)) w = (Inr ms', w')"
  shows "\<exists>evs. trace w' = trace w @ evs @ [S3Put key (Json ms')] \<and> list_all (\<lambda>ev. \<not> is_put ev) evs"
proof -
  from r obtain ms1 w1 where l: "for_each body xs ms0 w = (Inr ms1, w1)"
    and p: "bnd (put_as_json ms1 key) (\<lambda>_. ret ms1) w1 = (Inr ms', w')"
    by (blast dest: bnd_Inr)
  from p obtain u w2 where p2: "put_as_json ms1 key w1 = (Inr u, w2)"
    and rr: "ret ms1 w2 = (Inr ms', w')"
    by (blast dest: bnd_Inr)
  have eq: "ms' = ms1" "w' = w2" using rr by (auto simp: ret_def)
  have "emits (\<lambda>ev. \<not> is_put ev) (for_each body xs ms0)"
    by (rule emits_for_each) (rule e)
  from emits_run[OF this l] obtain evs where "trace w1 = trace w @ evs" "list_all (\<lambda>ev. \<not> is_put ev) evs"
    by blast
  then show ?thesis using put_as_json_Inr[OF p2] eq by auto
qed

lemma upload_parts_persist:
  assumes "upload_parts up src fname ms w = (Inr ms', w')"
  shows "\<exists>evs. trace w' = trace w @ evs @ [S3Put ''upload.json'' (Json ms')]
           \<and> list_all (\<lambda>ev. \<not> is_put ev) evs"
proof -
  from assms obtain e w0 where g: "lift (getitem src fname) w = (Inr e, w0)"
    and r: "bnd (for_each (upload_part up fname) (iter e) (setdefault ms fname (Parts [])))
             (\<lambda>my_state. bnd (put_as_json my_state ''upload.json'') (\<lambda>_. ret my_state)) w0 = (Inr ms', w')"
    unfolding upload_parts_def Let_def by (blast dest: bnd_Inr)
  have "w0 = w" using g by (simp add: lift_def)
  with loop_then_put[OF upload_part_no_put r] show ?thesis by simp
qed

lemma upload_parts_main_persist:
  assumes "upload_parts_main up src fname ms w = (Inr ms', w')"
  shows "\<exists>evs. trace w' = trace w @ evs @ [S3Put ''upload.json'' (Json ms')]
           \<and> list_all (\<lambda>ev. \<not> is_put ev) evs"
proof -
  from assms obtain e w0 where g: "lift (getitem src fname) w = (Inr e, w0)"
    and r: "bnd (for_each (upload_part_main up fname) (iter e) (setdefault ms fname (Parts [])))
             (\<lambda>my_state. bnd (put_as_json my_state ''upload.json'') (\<lambda>_. ret my_state)) w0 = (Inr ms', w')"
    unfolding upload_parts_main_def Let_def by (blast dest: bnd_Inr)
  have "w0 = w" using g by (simp add: lift_def)
  with loop_then_put[OF upload_part_main_no_put r] show ?thesis by simp
qed


lemma download_parts_persist:
  assumes "download_parts work_dir src origin_path ms w = (Inr ms', w')"
  shows "\<exists>evs. trace w' = trace w @ evs @ [S3Put ''download.json'' (Json ms')]
           \<and> list_all (\<lambda>ev. \<not> is_put ev) evs"
proof -
  let ?cd = "Path2 work_dir origin_path"
  from assms obtain e w0 where g: "lift (getitem src origin_path) w = (Inr e, w0)"
    and r0: "bnd (mkdir ?cd True) (\<lambda>_.
             bnd (for_each (download_part ?cd origin_path) (iter e) (setdefault ms origin_path (Parts [])))
             (\<lambda>my_state. bnd (put_as_json my_state ''download.json'') (\<lambda>_. ret my_state))) w0 = (Inr ms', w')"
    unfolding download_parts_def Let_def by (blast dest: bnd_Inr)
  have w0: "w0 = w" using g by (simp add: lift_def)
  from r0 obtain u w1 where m: "mkdir ?cd True w0 = (Inr u, w1)"
    and r: "bnd (for_each (download_part ?cd origin_path) (iter e) (setdefault ms origin_path (Parts [])))
             (\<lambda>my_state. bnd (put_as_json my_state ''download.json'') (\<lambda>_. ret my_state)) w1 = (Inr ms', w')"
    by (blast dest: bnd_Inr)
  have "emits (\<lambda>ev. \<not> is_put ev) (mkdir ?cd True)"
    by (rule emits_mkdir) (simp add: is_put_def)
  from emits_run[OF this m] w0 obtain e1 where e1: "trace w1 = trace w @ e1" "list_all (\<lambda>ev. \<not> is_put ev) e1"
    by blast
  from loop_then_put[OF download_part_no_put r] obtain e2 where
    e2: "trace w' = trace w1 @ e2 @ [S3Put ''download.json'' (Json ms')]" "list_all (\<lambda>ev. \<not> is_put ev) e2"
    by blast
  have "trace w' = trace w @ (e1 @ e2) @ [S3Put ''download.json'' (Json ms')]"
    using e1 e2 by simp
  moreover have "list_all (\<lambda>ev. \<not> is_put ev) (e1 @ e2)" using e1 e2 by simp
  ultimately show ?thesis by blast
qed

lemma download_parts_main_persist:
  assumes "download_parts_main work_dir src origin_path ms w = (Inr ms', w')"
  shows "\<exists>evs. trace w' = trace w @ evs @ [S3Put ''download.json'' (Json ms')]
           \<and> list_all (\<lambda>ev. \<not> is_put ev) evs"
proof -
  let ?cd = "Path2 work_dir origin_path"
  from assms obtain e w0 where g: "lift (getitem src origin_path) w = (Inr e, w0)"
    and r0: "bnd (mkdir ?cd True) (\<lambda>_.
             bnd (for_each (download_part_main ?cd origin_path) (iter e) (setdefault ms origin_path (Parts [])))
             (\<lambda>my_state. bnd (put_as_json my_state ''download.json'') (\<lambda>_. ret my_state))) w0 = (Inr ms', w')"
    unfolding download_parts_main_def Let_def by (blast dest: bnd_Inr)
  have w0: "w0 = w" using g by (simp add: lift_def)
  from r0 obtain u w1 where m: "mkdir ?cd True w0 = (Inr u, w1)"
    and r: "bnd (for_each (download_part_main ?cd origin_path) (iter e) (setdefault ms origin_path (Parts [])))
             (\<lambda>my_state. bnd (put_as_json my_state ''download.json'') (\<lambda>_. ret my_state)) w1 = (Inr ms', w')"
    by (blast dest: bnd_Inr)
  have "emits (\<lambda>ev. \<not> is_put ev) (mkdir ?cd True)"
    by (rule emits_mkdir) (simp add: is_put_def)
  from emits_run[OF this m] w0 obtain e1 where e1: "trace w1 = trace w @ e1" "list_all (\<lambda>ev. \<not> is_put ev) e1"
    by blast
  from loop_then_put[OF download_part_main_no_put r] obtain e2 where
    e2: "trace w' = trace w1 @ e2 @ [S3Put ''download.json'' (Json ms')]" "list_all (\<lambda>ev. \<not> is_put ev) e2"
    by blast
  have "trace w' = trace w @ (e1 @ e2) @ [S3Put ''download.json'' (Json ms')]"
    using e1 e2 by simp
  moreover have "list_all (\<lambda>ev. \<not> is_put ev) (e1 @ e2)" using e1 e2 by simp
  ultimately show ?thesis by blast
qed

text \<open>Definitions unfolded to run a stage on an example world.\<close>

lemmas run_defs =
  io_defs s3_call_def obj_get_def json_loads_def get_from_json_def put_as_json_def
  download_file_def upload_file_def delete_object_def list_keys_def logging_def
  is_file_def is_dir_def children_def exists_def iterdir_def unlink_def rmdir_def mkdir_def
  stat_def os_utime_def chmod_def rename_def rmdirr_def communicate_def
  run_pipeline_def run_pipeline_main_def
  keys_def py_set_def intersection_def difference_def getitem_def pop_def setdefault_def
  desc_keys_def iter_def append_item_def field_def list_plus_def sorted_py_def
  Path2_def name_def parent_def parents_def
  no_fault_def exits_def empty_world_def part_file_def split_world_def interrupted_world_def
  uploaded_world_def Let_def

lemma upload_split_world:
  "upload False split_world =
     (Inr (),
      split_world
        \<lparr>bucket := bucket split_world @
           [(''parts/w/a.dat/aa'', Bytes ''zstd''), (''parts/w/a.dat/ab'', Bytes ''zstd''),
            (''upload.json'', Json [(''a.dat'', Parts [''parts/w/a.dat/aa'', ''parts/w/a.dat/ab''])])],
         trace :=
           [S3Get ''upload.json'', S3Get ''disassemble.json'', S3Get ''target.json'',
            S3List ''parts'',
            Logging INFO ''Uploading {} as {}'' [PStr ''/w/a.dat/aa'', PStr ''parts/w/a.dat/aa''],
            Stat ''/w/a.dat/aa'', S3UploadFile ''/w/a.dat/aa'' ''parts/w/a.dat/aa'',
            Logging INFO ''Uploading {} as {}'' [PStr ''/w/a.dat/ab'', PStr ''parts/w/a.dat/ab''],
            Stat ''/w/a.dat/ab'', S3UploadFile ''/w/a.dat/ab'' ''parts/w/a.dat/ab'',
            S3Put ''upload.json''
              (Json [(''a.dat'', Parts [''parts/w/a.dat/aa'', ''parts/w/a.dat/ab''])])]\<rparr>)"
  by (simp add: upload_def upload_parts_def upload_part_def upload_cleanup_def run_defs)

lemma download_uploaded_world:
  "download ''/d'' uploaded_world =
     (Inr (),
      uploaded_world
        \<lparr>bucket := bucket uploaded_world @
           [(''download.json'', Json [(''a.dat'', Parts [''/d/a.dat/aa'', ''/d/a.dat/ab''])])],
         files := files uploaded_world @
           [(''/d/a.dat/aa'', part_file), (''/d/a.dat/ab'', part_file)],
         dirs := dirs uploaded_world @ [''/d'', ''/d/a.dat''],
         trace :=
           [S3Get ''download.json'', S3Get ''upload.json'', S3Get ''target.json'',
            Mkdir ''/d/a.dat'',
            Logging INFO ''Downloading {} {}'' [PStr ''a.dat'', PStr ''parts/w/a.dat/aa''],
            S3DownloadFile ''parts/w/a.dat/aa'' ''/d/a.dat/aa'',
            Logging INFO ''Downloading {} {}'' [PStr ''a.dat'', PStr ''parts/w/a.dat/ab''],
            S3DownloadFile ''parts/w/a.dat/ab'' ''/d/a.dat/ab'',
            S3Put ''download.json''
              (Json [(''a.dat'', Parts [''/d/a.dat/aa'', ''/d/a.dat/ab''])])]\<rparr>)"
  by (simp add: download_def download_parts_def download_part_def download_cleanup_def run_defs)

text \<open>
  C5, as amended. In both scripts the upload ledger and the download ledger are persisted
  once per logical-id, after all the parts of that id: the loop over the parts of an id
  makes no \<^verbatim>\<open>put_as_json\<close> call, and the body of the loop over the ids, when it returns,
  has made exactly one, as its last call, with the ledger it returns. An interruption in
  the middle of a file leaves nothing of that file recorded.
\<close>

theorem ledger_persisted_once_per_id:
  "list_all (\<lambda>ev. \<not> is_put ev) (new_events (for_each (upload_part up fname) ps ms) w)
   \<and> list_all (\<lambda>ev. \<not> is_put ev) (new_events (for_each (upload_part_main up fname) ps ms) w)
   \<and> list_all (\<lambda>ev. \<not> is_put ev) (new_events (for_each (download_part chunks_dir fname) ps ms) w)
   \<and> list_all (\<lambda>ev. \<not> is_put ev) (new_events (for_each (download_part_main chunks_dir fname) ps ms) w)
   \<and> (upload_parts up src fname ms w = (Inr ms', w') \<longrightarrow>
        (\<exists>evs. trace w' = trace w @ evs @ [S3Put ''upload.json'' (Json ms')]
           \<and> list_all (\<lambda>ev. \<not> is_put ev) evs))
   \<and> (upload_parts_main up src fname ms w = (Inr ms', w') \<longrightarrow>
        (\<exists>evs. trace w' = trace w @ evs @ [S3Put ''upload.json'' (Json ms')]
           \<and> list_all (\<lambda>ev. \<not> is_put ev) evs))
   \<and> (download_parts work_dir src fname ms w = (Inr ms', w') \<longrightarrow>
        (\<exists>evs. trace w' = trace w @ evs @ [S3Put ''download.json'' (Json ms')]
           \<and> list_all (\<lambda>ev. \<not> is_put ev) evs))
   \<and> (download_parts_main work_dir src fname ms w = (Inr ms', w') \<longrightarrow>
        (\<exists>evs. trace w' = trace w @ evs @ [S3Put ''download.json'' (Json ms')]
           \<and> list_all (\<lambda>ev. \<not> is_put ev) evs))"
proof (intro conjI impI)
  show "list_all (\<lambda>ev. \<not> is_put ev) (new_events (for_each (upload_part up fname) ps ms) w)"
    by (intro emits_new_events emits_for_each upload_part_no_put)
  show "list_all (\<lambda>ev. \<not> is_put ev) (new_events (for_each (upload_part_main up fname) ps ms) w)"
    by (intro emits_new_events emits_for_each upload_part_main_no_put)
  show "list_all (\<lambda>ev. \<not> is_put ev) (new_events (for_each (download_part chunks_dir fname) ps ms) w)"
    by (intro emits_new_events emits_for_each download_part_no_put)
  show "list_all (\<lambda>ev. \<not> is_put ev) (new_events (for_each (download_part_main chunks_dir fname) ps ms) w)"
    by (intro emits_new_events emits_for_each download_part_main_no_put)
qed (erule upload_parts_persist upload_parts_main_persist download_parts_persist
      download_parts_main_persist)+

theorem ledger_persisted_once_per_id_witness:
  "\<exists>evs. trace (snd (upload_parts [] [(''a.dat'', Parts [''/w/a.dat/aa'', ''/w/a.dat/ab''])]
                        ''a.dat'' [] split_world))
           = evs @ [S3Put ''upload.json''
                      (Json [(''a.dat'', Parts [''parts/w/a.dat/aa'', ''parts/w/a.dat/ab''])])]
         \<and> list_all (\<lambda>ev. \<not> is_put ev) evs"
proof -
  let ?r = "upload_parts [] [(''a.dat'', Parts [''/w/a.dat/aa'', ''/w/a.dat/ab''])] ''a.dat'' [] split_world"
  have "fst ?r = Inr [(''a.dat'', Parts [''parts/w/a.dat/aa'', ''parts/w/a.dat/ab''])]"
    by (simp add: upload_parts_def upload_part_def run_defs)
  then have run: "?r = (Inr [(''a.dat'', Parts [''parts/w/a.dat/aa'', ''parts/w/a.dat/ab''])], snd ?r)"
    by (cases ?r) simp
  have "trace split_world = []" by (simp add: split_world_def)
  with ledger_persisted_once_per_id[where w = split_world and w' = "snd ?r" and up = "[]"
      and src = "[(''a.dat'', Parts [''/w/a.dat/aa'', ''/w/a.dat/ab''])]" and fname = "''a.dat''"
      and ms = "[]" and ms' = "[(''a.dat'', Parts [''parts/w/a.dat/aa'', ''parts/w/a.dat/ab''])]"] run
  show ?thesis by simp
qed

text \<open>A file of two parts: both scripts transfer the first part and then the second before
  the ledger is written for the first time; between the two transfers nothing is
  persisted.\<close>

theorem no_persist_between_parts:
  "trace (snd (upload False split_world)) =
     [S3Get ''upload.json'', S3Get ''disassemble.json'', S3Get ''target.json'',
      S3List ''parts'',
      Logging INFO ''Uploading {} as {}'' [PStr ''/w/a.dat/aa'', PStr ''parts/w/a.dat/aa''],
      Stat ''/w/a.dat/aa'', S3UploadFile ''/w/a.dat/aa'' ''parts/w/a.dat/aa'',
      Logging INFO ''Uploading {} as {}'' [PStr ''/w/a.dat/ab'', PStr ''parts/w/a.dat/ab''],
      Stat ''/w/a.dat/ab'', S3UploadFile ''/w/a.dat/ab'' ''parts/w/a.dat/ab'',
      S3Put ''upload.json'' (Json [(''a.dat'', Parts [''parts/w/a.dat/aa'', ''parts/w/a.dat/ab''])])]
   \<and> trace (snd (download ''/d'' uploaded_world)) =
     [S3Get ''download.json'', S3Get ''upload.json'', S3Get ''target.json'',
      Mkdir ''/d/a.dat'',
      Logging INFO ''Downloading {} {}'' [PStr ''a.dat'', PStr ''parts/w/a.dat/aa''],
      S3DownloadFile ''parts/w/a.dat/aa'' ''/d/a.dat/aa'',
      Logging INFO ''Downloading {} {}'' [PStr ''a.dat'', PStr ''parts/w/a.dat/ab''],
      S3DownloadFile ''parts/w/a.dat/ab'' ''/d/a.dat/ab'',
      S3Put ''download.json'' (Json [(''a.dat'', Parts [''/d/a.dat/aa'', ''/d/a.dat/ab''])])]"
  by (simp add: upload_split_world download_uploaded_world)


subsection \<open>Parts found in the remote listing\<close>

lemma emits_put_as_json: "P (S3Put key (Json st)) \<Longrightarrow> emits P (put_as_json st key)"
  unfolding put_as_json_def by (intro emits_bnd emits_s3_call emits_silent) auto

lemma upload_part_no_transfer: "emits (\<lambda>ev. \<not> transfers up ev) (upload_part up fname p ms)"
  unfolding upload_part_def Let_def
  by (auto intro!: emits_bnd emits_logging emits_upload_file emits_ret emits_lift simp: transfers_def)

lemma upload_part_main_no_transfer: "emits (\<lambda>ev. \<not> transfers up ev) (upload_part_main up fname p ms)"
  unfolding upload_part_main_def Let_def
  by (auto intro!: emits_bnd emits_upload_file emits_ret emits_lift simp: transfers_def)

lemma upload_parts_no_transfer: "emits (\<lambda>ev. \<not> transfers up ev) (upload_parts up src fname ms)"
  unfolding upload_parts_def Let_def
  by (intro emits_bnd emits_lift emits_for_each upload_part_no_transfer emits_put_as_json emits_ret)
    (simp add: transfers_def)

lemma upload_parts_main_no_transfer: "emits (\<lambda>ev. \<not> transfers up ev) (upload_parts_main up src fname ms)"
  unfolding upload_parts_main_def Let_def
  by (intro emits_bnd emits_lift emits_for_each upload_part_main_no_transfer emits_put_as_json emits_ret)
    (simp add: transfers_def)

lemma append_item_entry:
  "append_item ms fname key = Inr ms' \<Longrightarrow> map_of ms fname = Some (Parts ks) \<Longrightarrow>
     map_of ms' fname = Some (Parts (ks @ [key]))"
  by (auto simp: append_item_def AList.update_conv')

lemma upload_part_entry:
  assumes "upload_part up fname p ms w = (Inr ms', w')" and "map_of ms fname = Some (Parts ks)"
  shows "map_of ms' fname =
           Some (Parts (ks @ filter (\<lambda>k. k \<notin> set up) [''parts'' @ p]))"
proof (cases "''parts'' @ p \<in> set up")
  case True
  then have "ms' = ms" using assms(1)
    by (auto simp: upload_part_def logging_def io_defs)
  then show ?thesis using True assms(2) by simp
next
  case False
  then have "\<exists>w1. lift (append_item ms fname (''parts'' @ p)) w1 = (Inr ms', w')"
    using assms(1) unfolding upload_part_def Let_def by (auto dest!: bnd_Inr)
  then have "append_item ms fname (''parts'' @ p) = Inr ms'" by (simp add: lift_def)
  from append_item_entry[OF this assms(2)] False show ?thesis by simp
qed

lemma upload_part_main_entry:
  assumes "upload_part_main up fname p ms w = (Inr ms', w')" and "map_of ms fname = Some (Parts ks)"
  shows "map_of ms' fname =
           Some (Parts (ks @ filter (\<lambda>k. k \<notin> set up) [''parts'' @ p]))"
proof (cases "''parts'' @ p \<in> set up")
  case True
  then have "ms' = ms" using assms(1)
    by (auto simp: upload_part_main_def io_defs)
  then show ?thesis using True assms(2) by simp
next
  case False
  then have "\<exists>w1. lift (append_item ms fname (''parts'' @ p)) w1 = (Inr ms', w')"
    using assms(1) unfolding upload_part_main_def Let_def by (auto dest!: bnd_Inr)
  then have "append_item ms fname (''parts'' @ p) = Inr ms'" by (simp add: lift_def)
  from append_item_entry[OF this assms(2)] False show ?thesis by simp
qed

text \<open>A loop whose body extends the entry of \<open>fname\<close> by \<open>g x\<close> extends it by all of them.\<close>

lemma for_each_entry:
  assumes step: "\<And>x ms w ms' w' ks. body x ms w = (Inr ms', w') \<Longrightarrow>
            map_of ms fname = Some (Parts ks) \<Longrightarrow> map_of ms' fname = Some (Parts (ks @ g x))"
  shows "for_each body xs ms w = (Inr ms', w') \<Longrightarrow> map_of ms fname = Some (Parts ks) \<Longrightarrow>
           map_of ms' fname = Some (Parts (ks @ concat (map g xs)))"
proof (induction xs arbitrary: ms w ks)
  case Nil
  then show ?case by (simp add: ret_def)
next
  case (Cons x xs)
  from Cons.prems(1) obtain ms1 w1 where b: "body x ms w = (Inr ms1, w1)"
    and l: "for_each body xs ms1 w1 = (Inr ms', w')"
    by (auto dest: bnd_Inr)
  from step[OF b Cons.prems(2)] have "map_of ms1 fname = Some (Parts (ks @ g x))" .
  from Cons.IH[OF l this] show ?case by simp
qed

lemma concat_filter_single: "concat (map (\<lambda>x. filter P [f x]) xs) = filter P (map f xs)"
  by (induction xs) auto

lemma setdefault_entry:
  "map_of (setdefault ms fname (Parts [])) fname =
     Some (case map_of ms fname of None \<Rightarrow> Parts [] | Some e \<Rightarrow> e)"
  by (simp add: setdefault_def AList.update_conv' split: option.splits)

lemma body_then_put:
  assumes "bnd (for_each body xs ms0)
             (\<lambda>my_state. bnd (put_as_json my_state key) (\<lambda>_. ret my_state)) w = (Inr ms', w')"
  shows "\<exists>w1. for_each body xs ms0 w = (Inr ms', w1)"
proof -
  from assms obtain ms1 w1 where l: "for_each body xs ms0 w = (Inr ms1, w1)"
    and p: "bnd (put_as_json ms1 key) (\<lambda>_. ret ms1) w1 = (Inr ms', w')"
    by (blast dest: bnd_Inr)
  from p have "ms' = ms1" by (auto dest!: bnd_Inr simp: ret_def)
  with l show ?thesis by blast
qed

lemma upload_parts_entry:
  assumes r: "upload_parts up src fname ms w = (Inr ms', w')"
    and s: "map_of src fname = Some e"
    and m: "map_of (setdefault ms fname (Parts [])) fname = Some (Parts ks)"
  shows "map_of ms' fname =
           Some (Parts (ks @ filter (\<lambda>k. k \<notin> set up) (map (\<lambda>p. ''parts'' @ p) (iter e))))"
proof -
  have "getitem src fname = Inr e" using s by (simp add: getitem_def)
  with r have "bnd (for_each (upload_part up fname) (iter e) (setdefault ms fname (Parts [])))
             (\<lambda>my_state. bnd (put_as_json my_state ''upload.json'') (\<lambda>_. ret my_state)) w = (Inr ms', w')"
    unfolding upload_parts_def Let_def by (simp add: io_defs)
  from body_then_put[OF this] obtain w1 where
    "for_each (upload_part up fname) (iter e) (setdefault ms fname (Parts [])) w = (Inr ms', w1)" ..
  then have "map_of ms' fname =
      Some (Parts (ks @ concat (map (\<lambda>p. filter (\<lambda>k. k \<notin> set up) [''parts'' @ p]) (iter e))))"
    using m by (rule for_each_entry[where body = "upload_part up fname", rotated 1]) (rule upload_part_entry)
  then show ?thesis by (simp only: concat_filter_single)
qed

lemma upload_parts_main_entry:
  assumes r: "upload_parts_main up src fname ms w = (Inr ms', w')"
    and s: "map_of src fname = Some e"
    and m: "map_of (setdefault ms fname (Parts [])) fname = Some (Parts ks)"
  shows "map_of ms' fname =
           Some (Parts (ks @ filter (\<lambda>k. k \<notin> set up) (map (\<lambda>p. ''parts'' @ p) (iter e))))"
proof -
  have "getitem src fname = Inr e" using s by (simp add: getitem_def)
  with r have "bnd (for_each (upload_part_main up fname) (iter e) (setdefault ms fname (Parts [])))
             (\<lambda>my_state. bnd (put_as_json my_state ''upload.json'') (\<lambda>_. ret my_state)) w = (Inr ms', w')"
    unfolding upload_parts_main_def Let_def by (simp add: io_defs)
  from body_then_put[OF this] obtain w1 where
    "for_each (upload_part_main up fname) (iter e) (setdefault ms fname (Parts [])) w = (Inr ms', w1)" ..
  then have "map_of ms' fname =
      Some (Parts (ks @ concat (map (\<lambda>p. filter (\<lambda>k. k \<notin> set up) [''parts'' @ p]) (iter e))))"
    using m by (rule for_each_entry[where body = "upload_part_main up fname", rotated 1]) (rule upload_part_main_entry)
  then show ?thesis by (simp only: concat_filter_single)
qed

text \<open>
  What \<^verbatim>\<open>upload\<close> does with a chunk path whose key \<^verbatim>\<open>'parts' + path\<close> is in the remote
  listing: it neither transfers the chunk nor appends the key. In both scripts the loop
  over the unprocessed ids uploads no file under a listed key, and the ledger entry the
  body returns for an id holds the keys the entry held before (none, for an id that was
  not in the ledger) followed by exactly the keys that were not in the listing.
\<close>

theorem upload_skips_listed_keys:
  "list_all (\<lambda>ev. \<not> transfers uploaded_parts ev)
      (new_events (for_each (upload_parts uploaded_parts src_state) my_unprocessed my_state) w)
   \<and> list_all (\<lambda>ev. \<not> transfers uploaded_parts ev)
      (new_events (for_each (upload_parts_main uploaded_parts src_state) my_unprocessed my_state) w)
   \<and> (upload_parts uploaded_parts src_state fname my_state w = (Inr ms', w') \<and>
       map_of src_state fname = Some part_paths \<and>
       map_of (setdefault my_state fname (Parts [])) fname = Some (Parts ks) \<longrightarrow>
       map_of ms' fname =
         Some (Parts (ks @ filter (\<lambda>k. k \<notin> set uploaded_parts)
                             (map (\<lambda>p. ''parts'' @ p) (iter part_paths)))))
   \<and> (upload_parts_main uploaded_parts src_state fname my_state w = (Inr ms', w') \<and>
       map_of src_state fname = Some part_paths \<and>
       map_of (setdefault my_state fname (Parts [])) fname = Some (Parts ks) \<longrightarrow>
       map_of ms' fname =
         Some (Parts (ks @ filter (\<lambda>k. k \<notin> set uploaded_parts)
                             (map (\<lambda>p. ''parts'' @ p) (iter part_paths)))))
   \<and> (map_of my_state fname = None \<longrightarrow>
       map_of (setdefault my_state fname (Parts [])) fname = Some (Parts []))"
proof (intro conjI impI)
  show "list_all (\<lambda>ev. \<not> transfers uploaded_parts ev)
      (new_events (for_each (upload_parts uploaded_parts src_state) my_unprocessed my_state) w)"
    by (intro emits_new_events emits_for_each upload_parts_no_transfer)
  show "list_all (\<lambda>ev. \<not> transfers uploaded_parts ev)
      (new_events (for_each (upload_parts_main uploaded_parts src_state) my_unprocessed my_state) w)"
    by (intro emits_new_events emits_for_each upload_parts_main_no_transfer)
  show "map_of (setdefault my_state fname (Parts [])) fname = Some (Parts [])"
    if "map_of my_state fname = None"
    using that by (simp add: setdefault_entry)
next
  assume "upload_parts uploaded_parts src_state fname my_state w = (Inr ms', w') \<and>
       map_of src_state fname = Some part_paths \<and>
       map_of (setdefault my_state fname (Parts [])) fname = Some (Parts ks)"
  then show "map_of ms' fname =
         Some (Parts (ks @ filter (\<lambda>k. k \<notin> set uploaded_parts)
                             (map (\<lambda>p. ''parts'' @ p) (iter part_paths))))"
    by (elim conjE) (rule upload_parts_entry)
next
  assume "upload_parts_main uploaded_parts src_state fname my_state w = (Inr ms', w') \<and>
       map_of src_state fname = Some part_paths \<and>
       map_of (setdefault my_state fname (Parts [])) fname = Some (Parts ks)"
  then show "map_of ms' fname =
         Some (Parts (ks @ filter (\<lambda>k. k \<notin> set uploaded_parts)
                             (map (\<lambda>p. ''parts'' @ p) (iter part_paths))))"
    by (elim conjE) (rule upload_parts_main_entry)
qed

lemma upload_interrupted_world:
  "upload False interrupted_world =
     (Inr (),
      interrupted_world
        \<lparr>bucket := bucket interrupted_world @
           [(''parts/w/a.dat/ab'', Bytes ''zstd''),
            (''upload.json'', Json [(''a.dat'', Parts [''parts/w/a.dat/ab''])])],
         trace :=
           [S3Get ''upload.json'', S3Get ''disassemble.json'', S3Get ''target.json'',
            S3List ''parts'',
            Logging WARN ''Key {} already uploaded'' [PStr ''parts/w/a.dat/aa''],
            Logging INFO ''Uploading {} as {}'' [PStr ''/w/a.dat/ab'', PStr ''parts/w/a.dat/ab''],
            Stat ''/w/a.dat/ab'', S3UploadFile ''/w/a.dat/ab'' ''parts/w/a.dat/ab'',
            S3Put ''upload.json'' (Json [(''a.dat'', Parts [''parts/w/a.dat/ab''])])]\<rparr>)"
  by (simp add: upload_def upload_parts_def upload_part_def upload_cleanup_def run_defs)

lemma upload_main_interrupted_world:
  "upload_main interrupted_world =
     (Inr (),
      interrupted_world
        \<lparr>bucket := bucket interrupted_world @
           [(''parts/w/a.dat/ab'', Bytes ''zstd''),
            (''upload.json'', Json [(''a.dat'', Parts [''parts/w/a.dat/ab''])])],
         trace :=
           [S3Get ''upload.json'', S3Get ''disassemble.json'', S3Get ''target.json'',
            S3List ''parts'',
            Stat ''/w/a.dat/ab'', S3UploadFile ''/w/a.dat/ab'' ''parts/w/a.dat/ab'',
            S3Put ''upload.json'' (Json [(''a.dat'', Parts [''parts/w/a.dat/ab''])])]\<rparr>)"
  by (simp add: upload_main_def upload_parts_main_def upload_part_main_def upload_cleanup_main_def
      run_defs)

theorem upload_skips_listed_keys_witness:
  "fst (upload_parts [''parts/w/a.dat/aa'']
          [(''a.dat'', Parts [''/w/a.dat/aa'', ''/w/a.dat/ab''])] ''a.dat'' [] interrupted_world)
     = Inr [(''a.dat'', Parts [''parts/w/a.dat/ab''])]
   \<and> map_of [(''a.dat'', Parts [''parts/w/a.dat/ab''])] ''a.dat''
     = Some (Parts ([] @ filter (\<lambda>k. k \<notin> set [''parts/w/a.dat/aa''])
          (map (\<lambda>p. ''parts'' @ p) (iter (Parts [''/w/a.dat/aa'', ''/w/a.dat/ab''])))))"
proof -
  let ?r = "upload_parts [''parts/w/a.dat/aa'']
               [(''a.dat'', Parts [''/w/a.dat/aa'', ''/w/a.dat/ab''])] ''a.dat'' [] interrupted_world"
  have f: "fst ?r = Inr [(''a.dat'', Parts [''parts/w/a.dat/ab''])]"
    by (simp add: upload_parts_def upload_part_def run_defs)
  then have run: "?r = (Inr [(''a.dat'', Parts [''parts/w/a.dat/ab''])], snd ?r)"
    by (cases ?r) simp
  have s: "map_of [(''a.dat'', Parts [''/w/a.dat/aa'', ''/w/a.dat/ab''])] ''a.dat''
             = Some (Parts [''/w/a.dat/aa'', ''/w/a.dat/ab''])"
    by simp
  have m: "map_of (setdefault [] ''a.dat'' (Parts [])) ''a.dat'' = Some (Parts [])"
    by (simp add: setdefault_def)
  from upload_skips_listed_keys[where w = interrupted_world and w' = "snd ?r"
      and uploaded_parts = "[''parts/w/a.dat/aa'']"
      and src_state = "[(''a.dat'', Parts [''/w/a.dat/aa'', ''/w/a.dat/ab''])]"
      and fname = "''a.dat''" and my_state = "[]"
      and ms' = "[(''a.dat'', Parts [''parts/w/a.dat/ab''])]"
      and part_paths = "Parts [''/w/a.dat/aa'', ''/w/a.dat/ab'']" and ks = "[]"] run s m
  have "map_of [(''a.dat'', Parts [''parts/w/a.dat/ab''])] ''a.dat''
     = Some (Parts ([] @ filter (\<lambda>k. k \<notin> set [''parts/w/a.dat/aa''])
          (map (\<lambda>p. ''parts'' @ p) (iter (Parts [''/w/a.dat/aa'', ''/w/a.dat/ab''])))))"
    by blast
  with f show ?thesis by blast
qed

text \<open>
  C2. A run of \<^verbatim>\<open>upload\<close> was interrupted when it had uploaded the first of the two parts
  of a file, before it persisted its ledger (the ledger is persisted after the last part).
  The next run finds the key of the first part in the listing and does not transfer the
  part again, but it does not record the key either: the entry it writes for the file
  holds the key of the second part alone, in both scripts, and \<^verbatim>\<open>download\<close>, which
  fetches the keys of \<^verbatim>\<open>upload.json\<close>, will not fetch the first part.
\<close>

theorem listed_key_not_recorded:
  "map_of (bucket interrupted_world) ''parts/w/a.dat/aa'' = Some (Bytes ''zstd'')
   \<and> map_of (bucket interrupted_world) ''upload.json'' = None
   \<and> map_of (bucket (snd (upload False interrupted_world))) ''upload.json''
       = Some (Json [(''a.dat'', Parts [''parts/w/a.dat/ab''])])
   \<and> map_of (bucket (snd (upload_main interrupted_world))) ''upload.json''
       = Some (Json [(''a.dat'', Parts [''parts/w/a.dat/ab''])])"
  by (simp add: upload_interrupted_world upload_main_interrupted_world)
    (simp add: interrupted_world_def split_world_def)


subsection \<open>Classification of the logical-ids\<close>

lemma set_py_set [simp]: "set (py_set xs) = set xs"
  by (simp add: py_set_def)

lemma set_intersection [simp]: "set (intersection a b) = set a \<inter> set b"
  by (auto simp: intersection_def)

lemma set_difference [simp]: "set (difference a b) = set a - set b"
  by (auto simp: difference_def)

lemma set_keys_delete: "set (keys (AList.delete k ms)) = set (keys ms) - {k}"
  by (simp add: keys_def AList.delete_keys)

text \<open>A clean-up loop whose body drops its id from the ledger drops all of them.\<close>

lemma for_each_pop:
  assumes step: "\<And>x ms w ms' w'. body x ms w = (Inr ms', w') \<Longrightarrow> ms' = AList.delete x ms"
  shows "for_each body xs ms w = (Inr ms', w') \<Longrightarrow> set (keys ms') = set (keys ms) - set xs"
proof (induction xs arbitrary: ms w)
  case Nil
  then show ?case by (simp add: ret_def)
next
  case (Cons x xs)
  from Cons.prems obtain ms1 w1 where b: "body x ms w = (Inr ms1, w1)"
    and l: "for_each body xs ms1 w1 = (Inr ms', w')"
    by (auto dest: bnd_Inr)
  from step[OF b] Cons.IH[OF l] show ?case by (auto simp: set_keys_delete)
qed

lemma pop_Inr: "pop ms k = Inr ms' \<Longrightarrow> ms' = AList.delete k ms"
  by (auto simp: pop_def split: option.splits)

lemma disassemble_cleanup_main_pop:
  "disassemble_cleanup_main work_dir x ms w = (Inr ms', w') \<Longrightarrow> ms' = AList.delete x ms"
  unfolding disassemble_cleanup_main_def
  by (auto dest!: bnd_Inr pop_Inr simp: lift_def ret_def)

lemma download_cleanup_pop:
  "download_cleanup work_dir x ms w = (Inr ms', w') \<Longrightarrow> ms' = AList.delete x ms"
  unfolding download_cleanup_def
  by (auto dest!: bnd_Inr pop_Inr simp: lift_def ret_def)

lemma download_cleanup_main_pop:
  "download_cleanup_main work_dir x ms w = (Inr ms', w') \<Longrightarrow> ms' = AList.delete x ms"
  unfolding download_cleanup_main_def
  by (auto dest!: bnd_Inr pop_Inr simp: lift_def ret_def)

text \<open>The three fetches a stage starts with.\<close>

lemma three_fetches:
  assumes "fst (get_from_json k1 d1 w) = Inr a"
    and "fst (get_from_json k2 d2 w) = Inr b"
    and "fst (get_from_json k3 d3 w) = Inr c"
  shows "bnd (get_from_json k1 d1) (\<lambda>x. bnd (get_from_json k2 d2) (\<lambda>y.
           bnd (get_from_json k3 d3) (\<lambda>z. F x y z))) w =
         F a b c (w\<lparr>trace := trace w @ [S3Get k1, S3Get k2, S3Get k3]\<rparr>)"
proof -
  let ?w1 = "w\<lparr>trace := trace w @ [S3Get k1]\<rparr>"
  let ?w2 = "?w1\<lparr>trace := trace ?w1 @ [S3Get k2]\<rparr>"
  have g2: "fst (get_from_json k2 d2 ?w1) = Inr b"
    using assms(2) by (simp add: get_from_json_fst_trace)
  have g3: "fst (get_from_json k3 d3 ?w2) = Inr c"
    using assms(3) by (simp only: get_from_json_fst_trace)
  show ?thesis
    by (simp only: get_from_json_bnd[OF assms(1)] get_from_json_bnd[OF g2]
        get_from_json_bnd[OF g3]) simp
qed

lemma remaining_work:
  assumes "set ms = set m - (set m \<inter> set t)"
  shows "set s - set ms - set t = set s - set m - set t"
  using assms by auto


lemma stage_fetches:
  assumes "fetched w k1 d1 a" and "fetched w k2 d2 b" and "fetched w k3 d3 c"
  shows "bnd (get_from_json k1 d1) (\<lambda>x. bnd (get_from_json k2 d2) (\<lambda>y.
           bnd (get_from_json k3 d3) (\<lambda>z. F x y z))) w =
         F a b c (after_fetches w [k1, k2, k3])"
  using assms three_fetches[of k1 d1 w a k2 d2 b k3 d3 c F]
  by (simp add: fetched_def after_fetches_def)

lemma disassemble_new_work:
  assumes "fetched w ''disassemble.json'' (Some []) my_state" and "fetched w ''origin.json'' (Some []) src_state"
    and "fetched w ''target.json'' None target"
  shows "\<exists>work. set work = set (keys src_state) - set (keys my_state) - set (keys target) \<and>
           disassemble work_dir part_size False w =
             bnd (for_each (disassemble_cleanup work_dir) (intersection (py_set (keys my_state)) (keys target)) my_state)
               (\<lambda>ms. bnd (for_each (disassemble_split work_dir part_size src_state) work ms) (\<lambda>_. ret ()))
               (after_fetches w [''disassemble.json'', ''origin.json'', ''target.json''])"
proof -
  let ?work = "difference (difference (difference (py_set (keys src_state)) (py_set (keys my_state))) (py_set (keys target))) (py_set (intersection (py_set (keys my_state)) (keys target)))"
  have "set ?work = set (keys src_state) - set (keys my_state) - set (keys target)" by auto
  moreover have "disassemble work_dir part_size False w =
             bnd (for_each (disassemble_cleanup work_dir) (intersection (py_set (keys my_state)) (keys target)) my_state)
               (\<lambda>ms. bnd (for_each (disassemble_split work_dir part_size src_state) ?work ms) (\<lambda>_. ret ()))
               (after_fetches w [''disassemble.json'', ''origin.json'', ''target.json''])"
    unfolding disassemble_def by (subst stage_fetches[OF assms]) (simp only: Let_def if_False)
  ultimately show ?thesis by blast
qed

lemma upload_new_work:
  assumes "fetched w ''upload.json'' (Some []) my_state" and "fetched w ''disassemble.json'' (Some []) src_state"
    and "fetched w ''target.json'' None target"
  shows "\<exists>work. set work = set (keys src_state) - set (keys my_state) - set (keys target) \<and>
           upload False w =
             bnd (for_each upload_cleanup (intersection (py_set (keys my_state)) (keys target)) my_state)
               (\<lambda>ms. bnd (list_keys ''parts'')
               (\<lambda>uploaded_parts. bnd (for_each (upload_parts uploaded_parts src_state) work ms) (\<lambda>_. ret ())))
               (after_fetches w [''upload.json'', ''disassemble.json'', ''target.json''])"
proof -
  let ?work = "difference (difference (difference (py_set (keys src_state)) (py_set (keys my_state))) (py_set (keys target))) (py_set (intersection (py_set (keys my_state)) (keys target)))"
  have "set ?work = set (keys src_state) - set (keys my_state) - set (keys target)" by auto
  moreover have "upload False w =
             bnd (for_each upload_cleanup (intersection (py_set (keys my_state)) (keys target)) my_state)
               (\<lambda>ms. bnd (list_keys ''parts'')
               (\<lambda>uploaded_parts. bnd (for_each (upload_parts uploaded_parts src_state) ?work ms) (\<lambda>_. ret ())))
               (after_fetches w [''upload.json'', ''disassemble.json'', ''target.json''])"
    unfolding upload_def by (subst stage_fetches[OF assms]) (simp only: Let_def if_False)
  ultimately show ?thesis by blast
qed

lemma upload_main_new_work:
  assumes "fetched w ''upload.json'' (Some []) my_state" and "fetched w ''disassemble.json'' (Some []) src_state"
    and "fetched w ''target.json'' (Some []) target"
  shows "\<exists>work. set work = set (keys src_state) - set (keys target) \<and>
           upload_main w =
             bnd (for_each upload_cleanup_main (intersection (py_set (keys my_state)) (keys target)) my_state)
               (\<lambda>ms. bnd (list_keys ''parts'')
               (\<lambda>uploaded_parts. bnd (for_each (upload_parts_main uploaded_parts src_state) work ms) (\<lambda>_. ret ())))
               (after_fetches w [''upload.json'', ''disassemble.json'', ''target.json''])"
proof -
  let ?work = "difference (py_set (keys src_state)) (py_set (keys target))"
  have "set ?work = set (keys src_state) - set (keys target)" by auto
  moreover have "upload_main w =
             bnd (for_each upload_cleanup_main (intersection (py_set (keys my_state)) (keys target)) my_state)
               (\<lambda>ms. bnd (list_keys ''parts'')
               (\<lambda>uploaded_parts. bnd (for_each (upload_parts_main uploaded_parts src_state) ?work ms) (\<lambda>_. ret ())))
               (after_fetches w [''upload.json'', ''disassemble.json'', ''target.json''])"
    unfolding upload_main_def by (subst stage_fetches[OF assms]) (simp only: Let_def if_False)
  ultimately show ?thesis by blast
qed

lemma download_new_work:
  assumes f: "fetched w ''download.json'' (Some []) my_state" "fetched w ''upload.json'' (Some []) src_state"
      "fetched w ''target.json'' None target"
    and c: "for_each (download_cleanup work_dir) (intersection (py_set (keys my_state)) (keys target)) my_state
             (after_fetches w [''download.json'', ''upload.json'', ''target.json'']) = (Inr ms, w')"
  shows "\<exists>work. set work = set (keys src_state) - set (keys my_state) - set (keys target) \<and>
           download work_dir w = bnd (for_each (download_parts work_dir src_state) work ms) (\<lambda>_. ret ()) w'"
proof -
  have "set (keys ms) = set (keys my_state) - (set (keys my_state) \<inter> set (keys target))"
    using for_each_pop[of "download_cleanup work_dir", OF download_cleanup_pop c] by simp
  then have "set (difference (difference (py_set (keys src_state)) (py_set (keys ms))) (py_set (keys target)))
      = set (keys src_state) - set (keys my_state) - set (keys target)"
    by auto
  moreover have "download work_dir w =
      bnd (for_each (download_parts work_dir src_state)
            (difference (difference (py_set (keys src_state)) (py_set (keys ms))) (py_set (keys target))) ms)
        (\<lambda>_. ret ()) w'"
    unfolding download_def
    by (subst stage_fetches[OF f]) (simp only: Let_def bnd_def c prod.case sum.case)
  ultimately show ?thesis by blast
qed

lemma download_main_new_work:
  assumes f: "fetched w ''download.json'' (Some []) my_state" "fetched w ''upload.json'' (Some []) src_state"
      "fetched w ''target.json'' (Some []) target"
    and c: "for_each (download_cleanup_main work_dir) (intersection (py_set (keys my_state)) (keys target)) my_state
             (after_fetches w [''download.json'', ''upload.json'', ''target.json'']) = (Inr ms, w')"
  shows "\<exists>work. set work = set (keys src_state) - set (keys my_state) - set (keys target) \<and>
           download_main work_dir w =
             bnd (for_each (download_parts_main work_dir src_state) work ms) (\<lambda>_. ret ()) w'"
proof -
  have "set (keys ms) = set (keys my_state) - (set (keys my_state) \<inter> set (keys target))"
    using for_each_pop[of "download_cleanup_main work_dir", OF download_cleanup_main_pop c] by simp
  then have "set (difference (difference (py_set (keys src_state)) (py_set (keys ms))) (py_set (keys target)))
      = set (keys src_state) - set (keys my_state) - set (keys target)"
    by auto
  moreover have "download_main work_dir w =
      bnd (for_each (download_parts_main work_dir src_state)
            (difference (difference (py_set (keys src_state)) (py_set (keys ms))) (py_set (keys target))) ms)
        (\<lambda>_. ret ()) w'"
    unfolding download_main_def
    by (subst stage_fetches[OF f]) (simp only: Let_def bnd_def c prod.case sum.case)
  ultimately show ?thesis by blast
qed

lemma disassemble_main_new_work:
  assumes f: "fetched w ''disassemble.json'' (Some []) my_state" "fetched w ''origin.json'' (Some []) src_state"
      "fetched w ''target.json'' (Some []) target"
    and c: "for_each (disassemble_cleanup_main work_dir) (intersection (py_set (keys my_state)) (keys target)) my_state
             (after_fetches w [''disassemble.json'', ''origin.json'', ''target.json'']) = (Inr ms, w')"
  shows "\<exists>work. set work = set (keys src_state) - set (keys my_state) - set (keys target) \<and>
           disassemble_main work_dir w =
             bnd (for_each (disassemble_split_main work_dir src_state) work ms) (\<lambda>_. ret ()) w'"
proof -
  have "set (keys ms) = set (keys my_state) - (set (keys my_state) \<inter> set (keys target))"
    using for_each_pop[of "disassemble_cleanup_main work_dir", OF disassemble_cleanup_main_pop c]
    by simp
  then have "set (difference (difference (py_set (keys src_state)) (py_set (keys ms))) (py_set (keys target)))
      = set (keys src_state) - set (keys my_state) - set (keys target)"
    by auto
  moreover have "disassemble_main work_dir w =
      bnd (for_each (disassemble_split_main work_dir src_state)
            (difference (difference (py_set (keys src_state)) (py_set (keys ms))) (py_set (keys target))) ms)
        (\<lambda>_. ret ()) w'"
    unfolding disassemble_main_def
    by (subst stage_fetches[OF f]) (simp only: Let_def bnd_def c prod.case sum.case)
  ultimately show ?thesis by blast
qed


lemma upload_main_uploaded_world:
  "upload_main uploaded_world =
     (Inr (),
      uploaded_world
        \<lparr>trace :=
           [S3Get ''upload.json'', S3Get ''disassemble.json'', S3Get ''target.json'',
            S3List ''parts'',
            S3Put ''upload.json''
              (Json [(''a.dat'', Parts [''parts/w/a.dat/aa'', ''parts/w/a.dat/ab''])])]\<rparr>)"
  by (simp add: upload_main_def upload_parts_main_def upload_part_main_def upload_cleanup_main_def
      run_defs)

lemma upload_uploaded_world:
  "upload False uploaded_world =
     (Inr (),
      uploaded_world
        \<lparr>trace :=
           [S3Get ''upload.json'', S3Get ''disassemble.json'', S3Get ''target.json'',
            S3List ''parts'']\<rparr>)"
  by (simp add: upload_def upload_parts_def upload_part_def upload_cleanup_def run_defs)

text \<open>
  C1, as amended. With \<open>my_state\<close>, \<open>src_state\<close> and \<open>target\<close> the three manifests a stage
  fetches: \<^verbatim>\<open>disassemble\<close>, \<^verbatim>\<open>upload\<close> and \<^verbatim>\<open>download\<close> of \<^verbatim>\<open>cta-ingest.py\<close>, and
  \<^verbatim>\<open>disassemble\<close> and \<^verbatim>\<open>download\<close> of \<^verbatim>\<open>cta_ingest/__main__.py\<close>, run the body of their
  loop over new work on a list of ids whose set is
  \<open>keys src_state - keys my_state - keys target\<close> (for the stages that clean up first, when
  the clean-up returns), so an id in the stage's own ledger is not processed again.
  \<^verbatim>\<open>upload\<close> of \<^verbatim>\<open>cta_ingest/__main__.py\<close> runs it on \<open>keys src_state - keys target\<close>: its
  own ledger is not subtracted.
\<close>

theorem new_work_classification:
  "(fetched w ''disassemble.json'' (Some []) my_state \<and> fetched w ''origin.json'' (Some []) src_state \<and>
    fetched w ''target.json'' None target \<longrightarrow>
      (\<exists>work. set work = set (keys src_state) - set (keys my_state) - set (keys target) \<and>
         disassemble work_dir part_size False w =
           bnd (for_each (disassemble_cleanup work_dir)
                  (intersection (py_set (keys my_state)) (keys target)) my_state)
             (\<lambda>ms. bnd (for_each (disassemble_split work_dir part_size src_state) work ms)
                     (\<lambda>_. ret ()))
             (after_fetches w [''disassemble.json'', ''origin.json'', ''target.json''])))
   \<and> (fetched w ''upload.json'' (Some []) my_state \<and> fetched w ''disassemble.json'' (Some []) src_state \<and>
    fetched w ''target.json'' None target \<longrightarrow>
      (\<exists>work. set work = set (keys src_state) - set (keys my_state) - set (keys target) \<and>
         upload False w =
           bnd (for_each upload_cleanup (intersection (py_set (keys my_state)) (keys target)) my_state)
             (\<lambda>ms. bnd (list_keys ''parts'')
             (\<lambda>uploaded_parts. bnd (for_each (upload_parts uploaded_parts src_state) work ms)
                     (\<lambda>_. ret ())))
             (after_fetches w [''upload.json'', ''disassemble.json'', ''target.json''])))
   \<and> (fetched w ''download.json'' (Some []) my_state \<and> fetched w ''upload.json'' (Some []) src_state \<and>
    fetched w ''target.json'' None target \<and>
    for_each (download_cleanup work_dir) (intersection (py_set (keys my_state)) (keys target)) my_state
      (after_fetches w [''download.json'', ''upload.json'', ''target.json'']) = (Inr ms, w') \<longrightarrow>
      (\<exists>work. set work = set (keys src_state) - set (keys my_state) - set (keys target) \<and>
         download work_dir w =
           bnd (for_each (download_parts work_dir src_state) work ms) (\<lambda>_. ret ()) w'))
   \<and> (fetched w ''disassemble.json'' (Some []) my_state \<and> fetched w ''origin.json'' (Some []) src_state \<and>
    fetched w ''target.json'' (Some []) target \<and>
    for_each (disassemble_cleanup_main work_dir) (intersection (py_set (keys my_state)) (keys target))
      my_state (after_fetches w [''disassemble.json'', ''origin.json'', ''target.json'']) = (Inr ms, w') \<longrightarrow>
      (\<exists>work. set work = set (keys src_state) - set (keys my_state) - set (keys target) \<and>
         disassemble_main work_dir w =
           bnd (for_each (disassemble_split_main work_dir src_state) work ms) (\<lambda>_. ret ()) w'))
   \<and> (fetched w ''download.json'' (Some []) my_state \<and> fetched w ''upload.json'' (Some []) src_state \<and>
    fetched w ''target.json'' (Some []) target \<and>
    for_each (download_cleanup_main work_dir) (intersection (py_set (keys my_state)) (keys target))
      my_state (after_fetches w [''download.json'', ''upload.json'', ''target.json'']) = (Inr ms, w') \<longrightarrow>
      (\<exists>work. set work = set (keys src_state) - set (keys my_state) - set (keys target) \<and>
         download_main work_dir w =
           bnd (for_each (download_parts_main work_dir src_state) work ms) (\<lambda>_. ret ()) w'))
   \<and> (fetched w ''upload.json'' (Some []) my_state \<and> fetched w ''disassemble.json'' (Some []) src_state \<and>
    fetched w ''target.json'' (Some []) target \<longrightarrow>
      (\<exists>work. set work = set (keys src_state) - set (keys target) \<and>
         upload_main w =
           bnd (for_each upload_cleanup_main (intersection (py_set (keys my_state)) (keys target))
                  my_state)
             (\<lambda>ms. bnd (list_keys ''parts'')
             (\<lambda>uploaded_parts. bnd (for_each (upload_parts_main uploaded_parts src_state) work ms)
                     (\<lambda>_. ret ())))
             (after_fetches w [''upload.json'', ''disassemble.json'', ''target.json''])))"
  by (intro conjI impI; elim conjE)
    (erule (2) disassemble_new_work, erule (2) upload_new_work, erule (3) download_new_work,
      erule (3) disassemble_main_new_work, erule (3) download_main_new_work,
      erule (2) upload_main_new_work)

theorem new_work_classification_witness:
  "\<exists>work. set work =
       set (keys [(''a.dat'', Parts [''/w/a.dat/aa'', ''/w/a.dat/ab''])])
       - set (keys [(''a.dat'', Parts [''parts/w/a.dat/aa'', ''parts/w/a.dat/ab''])]) - set (keys [])
     \<and> upload False uploaded_world =
         bnd (for_each upload_cleanup
                (intersection
                  (py_set (keys [(''a.dat'', Parts [''parts/w/a.dat/aa'', ''parts/w/a.dat/ab''])]))
                  (keys []))
                [(''a.dat'', Parts [''parts/w/a.dat/aa'', ''parts/w/a.dat/ab''])])
           (\<lambda>ms. bnd (list_keys ''parts'')
           (\<lambda>uploaded_parts.
              bnd (for_each (upload_parts uploaded_parts
                     [(''a.dat'', Parts [''/w/a.dat/aa'', ''/w/a.dat/ab''])]) work ms)
                (\<lambda>_. ret ())))
           (after_fetches uploaded_world [''upload.json'', ''disassemble.json'', ''target.json''])"
proof -
  have "fetched uploaded_world ''upload.json'' (Some [])
          [(''a.dat'', Parts [''parts/w/a.dat/aa'', ''parts/w/a.dat/ab''])]"
    and "fetched uploaded_world ''disassemble.json'' (Some [])
          [(''a.dat'', Parts [''/w/a.dat/aa'', ''/w/a.dat/ab''])]"
    and "fetched uploaded_world ''target.json'' None []"
    by (simp_all add: fetched_def run_defs)
  with new_work_classification[where w = uploaded_world and target = "[]"
      and my_state = "[(''a.dat'', Parts [''parts/w/a.dat/aa'', ''parts/w/a.dat/ab''])]"
      and src_state = "[(''a.dat'', Parts [''/w/a.dat/aa'', ''/w/a.dat/ab''])]"]
  show ?thesis by blast
qed

text \<open>With the file uploaded and recorded in \<^verbatim>\<open>upload.json\<close>, a second run of \<^verbatim>\<open>upload\<close>
  of \<^verbatim>\<open>cta_ingest/__main__.py\<close> goes through the recorded id again (it finds both keys in
  the listing and writes the ledger once more), where \<^verbatim>\<open>upload\<close> of \<^verbatim>\<open>cta-ingest.py\<close> has
  nothing to do.\<close>

theorem upload_main_revisits_recorded_id:
  "fst (get_from_json ''upload.json'' (Some []) uploaded_world)
     = Inr [(''a.dat'', Parts [''parts/w/a.dat/aa'', ''parts/w/a.dat/ab''])]
   \<and> trace (snd (upload_main uploaded_world)) =
       [S3Get ''upload.json'', S3Get ''disassemble.json'', S3Get ''target.json'', S3List ''parts'',
        S3Put ''upload.json'' (Json [(''a.dat'', Parts [''parts/w/a.dat/aa'', ''parts/w/a.dat/ab''])])]
   \<and> trace (snd (upload False uploaded_world)) =
       [S3Get ''upload.json'', S3Get ''disassemble.json'', S3Get ''target.json'', S3List ''parts'']"
  by (simp add: upload_main_uploaded_world upload_uploaded_world) (simp add: run_defs)


subsection \<open>Dry runs\<close>

lemma dry_run_report:
  "bnd (logging INFO f1 a1) (\<lambda>_. logging INFO f2 a2) w =
     (Inr (), w\<lparr>trace := trace w @ [Logging INFO f1 a1, Logging INFO f2 a2]\<rparr>)"
  by (simp add: logging_def io_defs)

lemma dry_run_report_frame:
  "\<exists>evs. snd (bnd (logging INFO f1 a1) (\<lambda>_. logging INFO f2 a2) w) = w\<lparr>trace := trace w @ evs\<rparr>
         \<and> list_all is_logging evs"
  by (rule exI[of _ "[Logging INFO f1 a1, Logging INFO f2 a2]"])
    (simp add: dry_run_report is_logging_def)

text \<open>Three fetches, then a computation that runs only if all three return.\<close>

lemma fetches_or_error:
  assumes F: "\<And>a b c w. \<exists>evs. snd (F a b c w) = w\<lparr>trace := trace w @ evs\<rparr> \<and> list_all is_logging evs"
  shows "\<exists>n evs. snd (bnd (get_from_json k1 d1) (\<lambda>x. bnd (get_from_json k2 d2) (\<lambda>y.
                  bnd (get_from_json k3 d3) (\<lambda>z. F x y z))) w)
            = w\<lparr>trace := trace w @ take n [S3Get k1, S3Get k2, S3Get k3] @ evs\<rparr>
          \<and> list_all is_logging evs"
proof -
  let ?w1 = "w\<lparr>trace := trace w @ [S3Get k1]\<rparr>"
  let ?w2 = "w\<lparr>trace := trace w @ [S3Get k1, S3Get k2]\<rparr>"
  let ?w3 = "w\<lparr>trace := trace w @ [S3Get k1, S3Get k2, S3Get k3]\<rparr>"
  let ?m = "bnd (get_from_json k1 d1) (\<lambda>x. bnd (get_from_json k2 d2) (\<lambda>y.
                  bnd (get_from_json k3 d3) (\<lambda>z. F x y z)))"
  have w2: "?w1\<lparr>trace := trace ?w1 @ [S3Get k2]\<rparr> = ?w2" by simp
  have w3: "?w2\<lparr>trace := trace ?w2 @ [S3Get k3]\<rparr> = ?w3" by simp
  show ?thesis
  proof (cases "fst (get_from_json k1 d1 w)")
    case (Inl e)
    have "snd (?m w) = w\<lparr>trace := trace w @ take 1 [S3Get k1, S3Get k2, S3Get k3] @ []\<rparr>"
      by (simp add: get_from_json_bnd_err[OF Inl])
    then show ?thesis by (intro exI[of _ 1] exI[of _ "[]"]) simp
  next
    case a: (Inr a)
    show ?thesis
    proof (cases "fst (get_from_json k2 d2 ?w1)")
      case (Inl e)
      have "snd (?m w) = w\<lparr>trace := trace w @ take 2 [S3Get k1, S3Get k2, S3Get k3] @ []\<rparr>"
        by (simp add: get_from_json_bnd[OF a] get_from_json_bnd_err[OF Inl])
      then show ?thesis by (intro exI[of _ 2] exI[of _ "[]"]) simp
    next
      case b: (Inr b)
      show ?thesis
      proof (cases "fst (get_from_json k3 d3 ?w2)")
        case (Inl e)
        have "?m w = (Inl e, ?w3)"
          by (simp only: get_from_json_bnd[OF a] get_from_json_bnd[OF b] w2
              get_from_json_bnd_err[OF Inl] w3)
        then have "snd (?m w) = w\<lparr>trace := trace w @ take 3 [S3Get k1, S3Get k2, S3Get k3] @ []\<rparr>"
          by simp
        then show ?thesis by (intro exI[of _ 3] exI[of _ "[]"]) simp
      next
        case c: (Inr c)
        have m: "?m w = F a b c ?w3"
          by (simp only: get_from_json_bnd[OF a] get_from_json_bnd[OF b] w2
              get_from_json_bnd[OF c] w3)
        from F[of a b c ?w3] obtain evs where
          "snd (F a b c ?w3) = ?w3\<lparr>trace := trace ?w3 @ evs\<rparr>" "list_all is_logging evs"
          by blast
        then have "snd (?m w) = w\<lparr>trace := trace w @ take 3 [S3Get k1, S3Get k2, S3Get k3] @ evs\<rparr>"
          using m by simp
        then show ?thesis using \<open>list_all is_logging evs\<close> by blast
      qed
    qed
  qed
qed

lemma disassemble_dry_run_frame:
  "\<exists>n evs. snd (disassemble work_dir part_size True w)
       = w\<lparr>trace := trace w @
            take n [S3Get ''disassemble.json'', S3Get ''origin.json'', S3Get ''target.json''] @ evs\<rparr>
     \<and> list_all is_logging evs"
  unfolding disassemble_def Let_def if_True
  by (rule fetches_or_error) (rule dry_run_report_frame)

lemma upload_dry_run_frame:
  "\<exists>n evs. snd (upload True w)
       = w\<lparr>trace := trace w @
            take n [S3Get ''upload.json'', S3Get ''disassemble.json'', S3Get ''target.json''] @ evs\<rparr>
     \<and> list_all is_logging evs"
  unfolding upload_def Let_def if_True
  by (rule fetches_or_error) (rule dry_run_report_frame)

lemma disassemble_dry_run_report:
  assumes "fetched w ''disassemble.json'' (Some []) my_state" and "fetched w ''origin.json'' (Some []) src_state"
    and "fetched w ''target.json'' None target"
  shows "\<exists>my_delivered my_unprocessed.
           set my_delivered = set (keys my_state) \<inter> set (keys target) \<and>
           set my_unprocessed = set (keys src_state) - set (keys my_state) - set (keys target) \<and>
           disassemble work_dir part_size True w =
             (Inr (), w\<lparr>trace := trace w @
                [S3Get ''disassemble.json'', S3Get ''origin.json'', S3Get ''target.json'',
                 Logging INFO ''Dry run: would have cleaned-up {}'' [PSet my_delivered],
                 Logging INFO ''Dry run: would have processed {}'' [PSet my_unprocessed]]\<rparr>)"
proof -
  let ?d = "intersection (py_set (keys my_state)) (keys target)"
  let ?u = "difference (difference (difference (py_set (keys src_state)) (py_set (keys my_state)))
              (py_set (keys target))) (py_set ?d)"
  have "set ?d = set (keys my_state) \<inter> set (keys target)" by simp
  moreover have "set ?u = set (keys src_state) - set (keys my_state) - set (keys target)" by auto
  moreover have "disassemble work_dir part_size True w =
             (Inr (), w\<lparr>trace := trace w @
                [S3Get ''disassemble.json'', S3Get ''origin.json'', S3Get ''target.json'',
                 Logging INFO ''Dry run: would have cleaned-up {}'' [PSet ?d],
                 Logging INFO ''Dry run: would have processed {}'' [PSet ?u]]\<rparr>)"
    unfolding disassemble_def
    by (subst stage_fetches[OF assms]) (simp add: dry_run_report after_fetches_def Let_def)
  ultimately show ?thesis by blast
qed

lemma upload_dry_run_report:
  assumes "fetched w ''upload.json'' (Some []) my_state" and "fetched w ''disassemble.json'' (Some []) src_state"
    and "fetched w ''target.json'' None target"
  shows "\<exists>my_delivered my_unprocessed.
           set my_delivered = set (keys my_state) \<inter> set (keys target) \<and>
           set my_unprocessed = set (keys src_state) - set (keys my_state) - set (keys target) \<and>
           upload True w =
             (Inr (), w\<lparr>trace := trace w @
                [S3Get ''upload.json'', S3Get ''disassemble.json'', S3Get ''target.json'',
                 Logging INFO ''Dry run: would have cleaned-up {}'' [PSet my_delivered],
                 Logging INFO ''Dry run: would have processed {}'' [PSet my_unprocessed]]\<rparr>)"
proof -
  let ?d = "intersection (py_set (keys my_state)) (keys target)"
  let ?u = "difference (difference (difference (py_set (keys src_state)) (py_set (keys my_state)))
              (py_set (keys target))) (py_set ?d)"
  have "set ?d = set (keys my_state) \<inter> set (keys target)" by simp
  moreover have "set ?u = set (keys src_state) - set (keys my_state) - set (keys target)" by auto
  moreover have "upload True w =
             (Inr (), w\<lparr>trace := trace w @
                [S3Get ''upload.json'', S3Get ''disassemble.json'', S3Get ''target.json'',
                 Logging INFO ''Dry run: would have cleaned-up {}'' [PSet ?d],
                 Logging INFO ''Dry run: would have processed {}'' [PSet ?u]]\<rparr>)"
    unfolding upload_def
    by (subst stage_fetches[OF assms]) (simp add: dry_run_report after_fetches_def Let_def)
  ultimately show ?thesis by blast
qed

text \<open>A fetch that fails ends the stage with its error, after the fetches made so far.\<close>

lemma second_fetch_fails:
  assumes "fetched w k1 d1 a" and "fst (get_from_json k2 d2 w) = Inl e"
  shows "bnd (get_from_json k1 d1) (\<lambda>x. bnd (get_from_json k2 d2) (G x)) w =
           (Inl e, w\<lparr>trace := trace w @ [S3Get k1, S3Get k2]\<rparr>)"
proof -
  let ?w1 = "w\<lparr>trace := trace w @ [S3Get k1]\<rparr>"
  have a: "fst (get_from_json k1 d1 w) = Inr a" using assms(1) by (simp add: fetched_def)
  have g2: "fst (get_from_json k2 d2 ?w1) = Inl e"
    using assms(2) by (simp add: get_from_json_fst_trace)
  show ?thesis by (simp add: get_from_json_bnd[OF a] get_from_json_bnd_err[OF g2])
qed

lemma third_fetch_fails:
  assumes "fetched w k1 d1 a" and "fetched w k2 d2 b" and "fst (get_from_json k3 d3 w) = Inl e"
  shows "bnd (get_from_json k1 d1) (\<lambda>x. bnd (get_from_json k2 d2) (\<lambda>y.
           bnd (get_from_json k3 d3) (G x y))) w =
           (Inl e, w\<lparr>trace := trace w @ [S3Get k1, S3Get k2, S3Get k3]\<rparr>)"
proof -
  let ?w1 = "w\<lparr>trace := trace w @ [S3Get k1]\<rparr>"
  let ?w2 = "w\<lparr>trace := trace w @ [S3Get k1, S3Get k2]\<rparr>"
  have a: "fst (get_from_json k1 d1 w) = Inr a" using assms(1) by (simp add: fetched_def)
  have b: "fst (get_from_json k2 d2 ?w1) = Inr b"
    using assms(2) by (simp add: fetched_def get_from_json_fst_trace)
  have g3: "fst (get_from_json k3 d3 ?w2) = Inl e"
    using assms(3) by (simp add: get_from_json_fst_trace)
  show ?thesis
    by (simp add: get_from_json_bnd[OF a] get_from_json_bnd[OF b] get_from_json_bnd_err[OF g3])
qed

text \<open>Three fetches and a computation that cannot fail: if the whole fails, a fetch failed,
  and the whole ended there.\<close>

lemma fetches_error_cases:
  assumes ok: "\<And>a b c w. fst (F a b c w) = Inr ()"
    and err: "fst (bnd (get_from_json k1 d1) (\<lambda>x. bnd (get_from_json k2 d2) (\<lambda>y.
                bnd (get_from_json k3 d3) (\<lambda>z. F x y z))) w) = Inl e"
  shows "\<exists>n. bnd (get_from_json k1 d1) (\<lambda>x. bnd (get_from_json k2 d2) (\<lambda>y.
                bnd (get_from_json k3 d3) (\<lambda>z. F x y z))) w =
           (Inl e, w\<lparr>trace := trace w @ take n [S3Get k1, S3Get k2, S3Get k3]\<rparr>)"
proof -
  let ?m = "bnd (get_from_json k1 d1) (\<lambda>x. bnd (get_from_json k2 d2) (\<lambda>y.
                bnd (get_from_json k3 d3) (\<lambda>z. F x y z)))"
  show ?thesis
  proof (cases "fst (get_from_json k1 d1 w)")
    case (Inl e1)
    have r: "?m w = (Inl e1, w\<lparr>trace := trace w @ [S3Get k1]\<rparr>)"
      by (rule get_from_json_bnd_err[OF Inl])
    with err have "e1 = e" by simp
    with r show ?thesis by (intro exI[of _ 1]) simp
  next
    case (Inr a)
    then have fa: "fetched w k1 d1 a" by (simp add: fetched_def)
    show ?thesis
    proof (cases "fst (get_from_json k2 d2 w)")
      case (Inl e2)
      have r: "?m w = (Inl e2, w\<lparr>trace := trace w @ [S3Get k1, S3Get k2]\<rparr>)"
        by (rule second_fetch_fails[OF fa Inl])
      with err have "e2 = e" by simp
      with r show ?thesis by (intro exI[of _ 2]) simp
    next
      case (Inr b)
      then have fb: "fetched w k2 d2 b" by (simp add: fetched_def)
      show ?thesis
      proof (cases "fst (get_from_json k3 d3 w)")
        case (Inl e3)
        have r: "?m w = (Inl e3, w\<lparr>trace := trace w @ [S3Get k1, S3Get k2, S3Get k3]\<rparr>)"
          by (rule third_fetch_fails[OF fa fb Inl])
        with err have "e3 = e" by simp
        with r show ?thesis by (intro exI[of _ 3]) simp
      next
        case (Inr c)
        then have fc: "fetched w k3 d3 c" by (simp add: fetched_def)
        have "?m w = F a b c (after_fetches w [k1, k2, k3])"
          by (rule stage_fetches[OF fa fb fc])
        with ok[of a b c "after_fetches w [k1, k2, k3]"] err show ?thesis by simp
      qed
    qed
  qed
qed

lemma dry_run_report_returns:
  "fst (bnd (logging INFO f1 a1) (\<lambda>_. logging INFO f2 a2) w) = Inr ()"
  by (simp add: dry_run_report)

lemma disassemble_dry_run_errors:
  "fst (get_from_json ''disassemble.json'' (Some []) w) = Inl e \<Longrightarrow>
     disassemble work_dir part_size True w =
       (Inl e, w\<lparr>trace := trace w @ [S3Get ''disassemble.json'']\<rparr>)"
  "fetched w ''disassemble.json'' (Some []) my_state \<Longrightarrow>
   fst (get_from_json ''origin.json'' (Some []) w) = Inl e \<Longrightarrow>
     disassemble work_dir part_size True w =
       (Inl e, w\<lparr>trace := trace w @ [S3Get ''disassemble.json'', S3Get ''origin.json'']\<rparr>)"
  "fetched w ''disassemble.json'' (Some []) my_state \<Longrightarrow>
   fetched w ''origin.json'' (Some []) src_state \<Longrightarrow>
   fst (get_from_json ''target.json'' None w) = Inl e \<Longrightarrow>
     disassemble work_dir part_size True w =
       (Inl e, w\<lparr>trace := trace w @
          [S3Get ''disassemble.json'', S3Get ''origin.json'', S3Get ''target.json'']\<rparr>)"
  "fst (disassemble work_dir part_size True w) = Inl e \<Longrightarrow>
     \<exists>n. disassemble work_dir part_size True w =
       (Inl e, w\<lparr>trace := trace w @
          take n [S3Get ''disassemble.json'', S3Get ''origin.json'', S3Get ''target.json'']\<rparr>)"
  unfolding disassemble_def Let_def if_True
  by (erule get_from_json_bnd_err, erule (1) second_fetch_fails, erule (2) third_fetch_fails,
      erule fetches_error_cases[rotated], rule dry_run_report_returns)

lemma upload_dry_run_errors:
  "fst (get_from_json ''upload.json'' (Some []) w) = Inl e \<Longrightarrow>
     upload True w = (Inl e, w\<lparr>trace := trace w @ [S3Get ''upload.json'']\<rparr>)"
  "fetched w ''upload.json'' (Some []) my_state \<Longrightarrow>
   fst (get_from_json ''disassemble.json'' (Some []) w) = Inl e \<Longrightarrow>
     upload True w =
       (Inl e, w\<lparr>trace := trace w @ [S3Get ''upload.json'', S3Get ''disassemble.json'']\<rparr>)"
  "fetched w ''upload.json'' (Some []) my_state \<Longrightarrow>
   fetched w ''disassemble.json'' (Some []) src_state \<Longrightarrow>
   fst (get_from_json ''target.json'' None w) = Inl e \<Longrightarrow>
     upload True w =
       (Inl e, w\<lparr>trace := trace w @
          [S3Get ''upload.json'', S3Get ''disassemble.json'', S3Get ''target.json'']\<rparr>)"
  "fst (upload True w) = Inl e \<Longrightarrow>
     \<exists>n. upload True w =
       (Inl e, w\<lparr>trace := trace w @
          take n [S3Get ''upload.json'', S3Get ''disassemble.json'', S3Get ''target.json'']\<rparr>)"
  unfolding upload_def Let_def if_True
  by (erule get_from_json_bnd_err, erule (1) second_fetch_fails, erule (2) third_fetch_fails,
      erule fetches_error_cases[rotated], rule dry_run_report_returns)

text \<open>
  C8, as amended. A dry run of \<^verbatim>\<open>disassemble\<close> or \<^verbatim>\<open>upload\<close> (\<^verbatim>\<open>cta-ingest.py\<close>) changes
  nothing: the world it leaves differs from the world it found in the trace alone, which
  has grown by fetches among the three read-only manifest fetches of the stage (its own
  ledger, its source, \<^verbatim>\<open>target.json\<close>), in that order, and by logging calls. When the
  three fetches return, the run makes exactly these and two logging calls, which report the
  delivered set and the unprocessed set. When a fetch fails, the run ends with the error of
  that fetch, having made the fetches up to that one and no logging call; and a run that
  ends with an error has failed in this way.
\<close>

theorem dry_run_reads_only:
  "(\<exists>n evs. snd (disassemble work_dir part_size True w)
       = w\<lparr>trace := trace w @
            take n [S3Get ''disassemble.json'', S3Get ''origin.json'', S3Get ''target.json''] @ evs\<rparr>
     \<and> list_all is_logging evs)
   \<and> (\<exists>n evs. snd (upload True w)
       = w\<lparr>trace := trace w @
            take n [S3Get ''upload.json'', S3Get ''disassemble.json'', S3Get ''target.json''] @ evs\<rparr>
     \<and> list_all is_logging evs)
   \<and> (fetched w ''disassemble.json'' (Some []) my_state \<and> fetched w ''origin.json'' (Some []) src_state \<and>
       fetched w ''target.json'' None target \<longrightarrow>
       (\<exists>my_delivered my_unprocessed.
           set my_delivered = set (keys my_state) \<inter> set (keys target) \<and>
           set my_unprocessed = set (keys src_state) - set (keys my_state) - set (keys target) \<and>
           disassemble work_dir part_size True w =
             (Inr (), w\<lparr>trace := trace w @
                [S3Get ''disassemble.json'', S3Get ''origin.json'', S3Get ''target.json'',
                 Logging INFO ''Dry run: would have cleaned-up {}'' [PSet my_delivered],
                 Logging INFO ''Dry run: would have processed {}'' [PSet my_unprocessed]]\<rparr>)))
   \<and> (fetched w ''upload.json'' (Some []) my_state \<and> fetched w ''disassemble.json'' (Some []) src_state \<and>
       fetched w ''target.json'' None target \<longrightarrow>
       (\<exists>my_delivered my_unprocessed.
           set my_delivered = set (keys my_state) \<inter> set (keys target) \<and>
           set my_unprocessed = set (keys src_state) - set (keys my_state) - set (keys target) \<and>
           upload True w =
             (Inr (), w\<lparr>trace := trace w @
                [S3Get ''upload.json'', S3Get ''disassemble.json'', S3Get ''target.json'',
                 Logging INFO ''Dry run: would have cleaned-up {}'' [PSet my_delivered],
                 Logging INFO ''Dry run: would have processed {}'' [PSet my_unprocessed]]\<rparr>)))
   \<and> (fst (get_from_json ''disassemble.json'' (Some []) w) = Inl e \<longrightarrow>
       disassemble work_dir part_size True w =
         (Inl e, w\<lparr>trace := trace w @ [S3Get ''disassemble.json'']\<rparr>))
   \<and> (fetched w ''disassemble.json'' (Some []) my_state \<and>
       fst (get_from_json ''origin.json'' (Some []) w) = Inl e \<longrightarrow>
       disassemble work_dir part_size True w =
         (Inl e, w\<lparr>trace := trace w @ [S3Get ''disassemble.json'', S3Get ''origin.json'']\<rparr>))
   \<and> (fetched w ''disassemble.json'' (Some []) my_state \<and> fetched w ''origin.json'' (Some []) src_state \<and>
       fst (get_from_json ''target.json'' None w) = Inl e \<longrightarrow>
       disassemble work_dir part_size True w =
         (Inl e, w\<lparr>trace := trace w @
            [S3Get ''disassemble.json'', S3Get ''origin.json'', S3Get ''target.json'']\<rparr>))
   \<and> (fst (disassemble work_dir part_size True w) = Inl e \<longrightarrow>
       (\<exists>n. disassemble work_dir part_size True w =
         (Inl e, w\<lparr>trace := trace w @
            take n [S3Get ''disassemble.json'', S3Get ''origin.json'', S3Get ''target.json'']\<rparr>)))
   \<and> (fst (get_from_json ''upload.json'' (Some []) w) = Inl e \<longrightarrow>
       upload True w = (Inl e, w\<lparr>trace := trace w @ [S3Get ''upload.json'']\<rparr>))
   \<and> (fetched w ''upload.json'' (Some []) my_state \<and>
       fst (get_from_json ''disassemble.json'' (Some []) w) = Inl e \<longrightarrow>
       upload True w =
         (Inl e, w\<lparr>trace := trace w @ [S3Get ''upload.json'', S3Get ''disassemble.json'']\<rparr>))
   \<and> (fetched w ''upload.json'' (Some []) my_state \<and> fetched w ''disassemble.json'' (Some []) src_state \<and>
       fst (get_from_json ''target.json'' None w) = Inl e \<longrightarrow>
       upload True w =
         (Inl e, w\<lparr>trace := trace w @
            [S3Get ''upload.json'', S3Get ''disassemble.json'', S3Get ''target.json'']\<rparr>))
   \<and> (fst (upload True w) = Inl e \<longrightarrow>
       (\<exists>n. upload True w =
         (Inl e, w\<lparr>trace := trace w @
            take n [S3Get ''upload.json'', S3Get ''disassemble.json'', S3Get ''target.json'']\<rparr>)))
   \<and> (fault w (S3Get ''target.json'') = None \<and> map_of (bucket w) ''target.json'' = None \<longrightarrow>
       fst (get_from_json ''target.json'' None w) = Inl NoSuchKeyError)"
  apply (intro conjI)
  subgoal by (rule disassemble_dry_run_frame)
  subgoal by (rule upload_dry_run_frame)
  subgoal by (intro impI, elim conjE, erule (2) disassemble_dry_run_report)
  subgoal by (intro impI, elim conjE, erule (2) upload_dry_run_report)
  subgoal by (intro impI, erule disassemble_dry_run_errors(1))
  subgoal by (intro impI, elim conjE, erule (1) disassemble_dry_run_errors(2))
  subgoal by (intro impI, elim conjE, erule (2) disassemble_dry_run_errors(3))
  subgoal by (intro impI, erule disassemble_dry_run_errors(4))
  subgoal by (intro impI, erule upload_dry_run_errors(1))
  subgoal by (intro impI, elim conjE, erule (1) upload_dry_run_errors(2))
  subgoal by (intro impI, elim conjE, erule (2) upload_dry_run_errors(3))
  subgoal by (intro impI, erule upload_dry_run_errors(4))
  subgoal by (simp add: get_from_json_absent)
  done

theorem dry_run_reads_only_witness:
  "(\<exists>my_delivered my_unprocessed.
     set my_delivered = set (keys []) \<inter> set (keys []) \<and>
     set my_unprocessed =
       set (keys [(''a.dat'', Parts [''/w/a.dat/aa'', ''/w/a.dat/ab''])]) - set (keys []) - set (keys []) \<and>
     upload True split_world =
       (Inr (), split_world\<lparr>trace := trace split_world @
          [S3Get ''upload.json'', S3Get ''disassemble.json'', S3Get ''target.json'',
           Logging INFO ''Dry run: would have cleaned-up {}'' [PSet my_delivered],
           Logging INFO ''Dry run: would have processed {}'' [PSet my_unprocessed]]\<rparr>))
   \<and> upload True empty_world =
       (Inl NoSuchKeyError, empty_world\<lparr>trace := trace empty_world @
          [S3Get ''upload.json'', S3Get ''disassemble.json'', S3Get ''target.json'']\<rparr>)
   \<and> upload True (empty_world\<lparr>fault := (\<lambda>ev. Some (ClientError ''AccessDenied''))\<rparr>) =
       (Inl NoSuchKeyError,
        empty_world\<lparr>fault := (\<lambda>ev. Some (ClientError ''AccessDenied'')),
                     trace := trace empty_world @ [S3Get ''upload.json'']\<rparr>)"
proof (intro conjI)
  have "fetched split_world ''upload.json'' (Some []) []"
    and "fetched split_world ''disassemble.json'' (Some [])
          [(''a.dat'', Parts [''/w/a.dat/aa'', ''/w/a.dat/ab''])]"
    and "fetched split_world ''target.json'' None []"
    by (simp_all add: fetched_def run_defs)
  with dry_run_reads_only[where w = split_world and target = "[]" and my_state = "[]"
      and src_state = "[(''a.dat'', Parts [''/w/a.dat/aa'', ''/w/a.dat/ab''])]"]
  show "\<exists>my_delivered my_unprocessed.
     set my_delivered = set (keys []) \<inter> set (keys []) \<and>
     set my_unprocessed =
       set (keys [(''a.dat'', Parts [''/w/a.dat/aa'', ''/w/a.dat/ab''])]) - set (keys []) - set (keys []) \<and>
     upload True split_world =
       (Inr (), split_world\<lparr>trace := trace split_world @
          [S3Get ''upload.json'', S3Get ''disassemble.json'', S3Get ''target.json'',
           Logging INFO ''Dry run: would have cleaned-up {}'' [PSet my_delivered],
           Logging INFO ''Dry run: would have processed {}'' [PSet my_unprocessed]]\<rparr>)"
    by blast
next
  have "fetched empty_world ''upload.json'' (Some []) []"
    and "fetched empty_world ''disassemble.json'' (Some []) []"
    and "fst (get_from_json ''target.json'' None empty_world) = Inl NoSuchKeyError"
    by (simp_all add: fetched_def run_defs)
  with dry_run_reads_only[where w = empty_world and my_state = "[]" and src_state = "[]"
      and e = NoSuchKeyError]
  show "upload True empty_world =
       (Inl NoSuchKeyError, empty_world\<lparr>trace := trace empty_world @
          [S3Get ''upload.json'', S3Get ''disassemble.json'', S3Get ''target.json'']\<rparr>)"
    by blast
next
  let ?w = "empty_world\<lparr>fault := (\<lambda>ev. Some (ClientError ''AccessDenied''))\<rparr>"
  have "fst (get_from_json ''upload.json'' (Some []) ?w) = Inl NoSuchKeyError"
    by (simp add: run_defs)
  with dry_run_reads_only[where w = ?w and e = NoSuchKeyError]
  have "upload True ?w = (Inl NoSuchKeyError, ?w\<lparr>trace := trace ?w @ [S3Get ''upload.json'']\<rparr>)"
    by blast
  then show "upload True ?w =
       (Inl NoSuchKeyError,
        empty_world\<lparr>fault := (\<lambda>ev. Some (ClientError ''AccessDenied'')),
                     trace := trace empty_world @ [S3Get ''upload.json'']\<rparr>)"
    by simp
qed

text \<open>The dry run fetches three manifests, not two; and where \<^verbatim>\<open>target.json\<close> is absent it
  raises after the third fetch and reports nothing.\<close>

theorem dry_run_three_fetches:
  "upload True split_world =
     (Inr (), split_world\<lparr>trace :=
        [S3Get ''upload.json'', S3Get ''disassemble.json'', S3Get ''target.json'',
         Logging INFO ''Dry run: would have cleaned-up {}'' [PSet []],
         Logging INFO ''Dry run: would have processed {}'' [PSet [''a.dat'']]]\<rparr>)
   \<and> disassemble ''/w'' 1024 True empty_world =
     (Inl NoSuchKeyError, empty_world\<lparr>trace :=
        [S3Get ''disassemble.json'', S3Get ''origin.json'', S3Get ''target.json'']\<rparr>)"
  by (simp add: upload_def disassemble_def run_defs)


subsection \<open>\<^verbatim>\<open>reassemble\<close>\<close>

lemmas world_defs = writes_output_def downloaded_world_def conflict_world_def

lemma reassemble_main_downloaded_world:
  "trace (snd (reassemble_main ''/r'' ''/dst'' downloaded_world)) =
     [Mkdir ''/r'', Mkdir ''/dst'', S3Get ''download.json'', S3Get ''origin.json'',
      Popen [''cat'', ''/d/a.dat/ab'', ''/d/a.dat/aa''],
      Popen [''zstd'', ''--quiet'', ''--force'', ''--decompress'', ''-o'', ''/r/a.dat''],
      Utime ''/r/a.dat'' 2 1, Chmod ''/r/a.dat'' 292, Exists ''/dst/a.dat'',
      Rename ''/r/a.dat'' ''/dst/a.dat'']"
  by (simp add: reassemble_main_def reassemble_item_main_def run_defs world_defs)

lemma reassemble_downloaded_world:
  "trace (snd (reassemble ''/r'' ''/dst'' downloaded_world)) =
     [Mkdir ''/r'', Mkdir ''/dst'', S3Get ''download.json'', S3Get ''origin.json'',
      Logging INFO ''Processing {} from {} parts'' [PStr ''a.dat'', PInt 2],
      Popen [''cat'', ''/d/a.dat/aa'', ''/d/a.dat/ab''],
      Popen [''zstd'', ''--quiet'', ''--force'', ''--decompress'', ''-o'', ''/r/a.dat''],
      Utime ''/r/a.dat'' 2 1, Chmod ''/r/a.dat'' 292, Exists ''/dst/a.dat'',
      Logging INFO ''{} has been reassembled'' [PStr ''/dst/a.dat''],
      Rename ''/r/a.dat'' ''/dst/a.dat'']"
  by (simp add: reassemble_def reassemble_item_def run_defs world_defs)

lemma reassemble_main_conflict_world:
  "reassemble_main ''/r'' ''/dst'' conflict_world =
     (Inr (),
      conflict_world
        \<lparr>files := files conflict_world @
           [(''/r/a.dat'', \<lparr>content = Bytes ''data'', utime = Some (2, 1), mode = Some 292\<rparr>)],
         trace :=
           [Mkdir ''/r'', Mkdir ''/dst'', S3Get ''download.json'', S3Get ''origin.json'',
            Popen [''cat'', ''/d/a.dat/ab'', ''/d/a.dat/aa''],
            Popen [''zstd'', ''--quiet'', ''--force'', ''--decompress'', ''-o'', ''/r/a.dat''],
            Utime ''/r/a.dat'' 2 1, Chmod ''/r/a.dat'' 292, Exists ''/dst/a.dat'']\<rparr>)"
  by (simp add: reassemble_main_def reassemble_item_main_def run_defs world_defs)

lemma reassemble_conflict_world:
  "reassemble ''/r'' ''/dst'' conflict_world =
     (Inr (),
      conflict_world
        \<lparr>files := files conflict_world @
           [(''/r/a.dat'', \<lparr>content = Bytes ''data'', utime = Some (2, 1), mode = Some 292\<rparr>)],
         trace :=
           [Mkdir ''/r'', Mkdir ''/dst'', S3Get ''download.json'', S3Get ''origin.json'',
            Logging INFO ''Processing {} from {} parts'' [PStr ''a.dat'', PInt 2],
            Popen [''cat'', ''/d/a.dat/aa'', ''/d/a.dat/ab''],
            Popen [''zstd'', ''--quiet'', ''--force'', ''--decompress'', ''-o'', ''/r/a.dat''],
            Utime ''/r/a.dat'' 2 1, Chmod ''/r/a.dat'' 292, Exists ''/dst/a.dat'',
            Logging ERROR ''{} exists'' [PStr ''/dst/a.dat'']]\<rparr>)"
  by (simp add: reassemble_def reassemble_item_def run_defs world_defs)


lemmas reassemble_defs =
  io_defs logging_def run_pipeline_def run_pipeline_main_def communicate_def getitem_def field_def
  list_plus_def os_utime_def chmod_def exists_def is_dir_def is_file_def is_rename_def
  is_logging_def Let_def AList.update_conv' output_path_def target_path_def zstd_cmd_def
  decompressed_def new_events_def

lemma reassemble_item_conflict:
  assumes "output_path work_dir origin_path \<noteq> target_path work_dir dst_dir origin_path"
    and "is_dir w (target_path work_dir dst_dir origin_path) \<or>
         map_of (decompressed w ([''cat''] @ sorted_py (iter part_paths)) (output_path work_dir origin_path))
           (target_path work_dir dst_dir origin_path) \<noteq> None"
  shows "list_all (\<lambda>ev. \<not> is_rename ev)
           (new_events (reassemble_item work_dir dst_dir origin_state (origin_path, part_paths) u) w)"
    and "map_of (files (snd (reassemble_item work_dir dst_dir origin_state (origin_path, part_paths) u w)))
           (target_path work_dir dst_dir origin_path) =
         map_of (decompressed w ([''cat''] @ sorted_py (iter part_paths)) (output_path work_dir origin_path))
           (target_path work_dir dst_dir origin_path)"
    and "dirs (snd (reassemble_item work_dir dst_dir origin_state (origin_path, part_paths) u w)) = dirs w"
  using assms unfolding reassemble_item_def
  by (auto simp: reassemble_defs split: prod.splits option.splits entry.splits)

lemma reassemble_item_main_conflict:
  assumes "output_path work_dir origin_path \<noteq> target_path work_dir dst_dir origin_path"
    and "is_dir w (target_path work_dir dst_dir origin_path) \<or>
         map_of (decompressed w ([''cat''] @ ps) (output_path work_dir origin_path))
           (target_path work_dir dst_dir origin_path) \<noteq> None"
  shows "list_all (\<lambda>ev. \<not> is_rename ev)
           (new_events (reassemble_item_main work_dir dst_dir origin_state (origin_path, Parts ps) u) w)"
    and "map_of (files (snd (reassemble_item_main work_dir dst_dir origin_state (origin_path, Parts ps) u w)))
           (target_path work_dir dst_dir origin_path) =
         map_of (decompressed w ([''cat''] @ ps) (output_path work_dir origin_path))
           (target_path work_dir dst_dir origin_path)"
    and "dirs (snd (reassemble_item_main work_dir dst_dir origin_state (origin_path, Parts ps) u w)) = dirs w"
  using assms unfolding reassemble_item_main_def
  by (auto simp: reassemble_defs split: prod.splits option.splits entry.splits)

lemma reassemble_item_conflict_reported:
  assumes "output_path work_dir origin_path \<noteq> target_path work_dir dst_dir origin_path"
    and "is_dir w (target_path work_dir dst_dir origin_path) \<or>
         map_of (decompressed w ([''cat''] @ sorted_py (iter part_paths)) (output_path work_dir origin_path))
           (target_path work_dir dst_dir origin_path) \<noteq> None"
    and "fst (procs w ([''cat''] @ sorted_py (iter part_paths)) (zstd_cmd (output_path work_dir origin_path))
           (files w)) = 0"
    and "map_of origin_state origin_path = Some (Desc d)"
    and "map_of (decompressed w ([''cat''] @ sorted_py (iter part_paths)) (output_path work_dir origin_path))
           (output_path work_dir origin_path) = Some f"
  shows "fst (reassemble_item work_dir dst_dir origin_state (origin_path, part_paths) u w) = Inr ()"
    and "last (trace (snd (reassemble_item work_dir dst_dir origin_state (origin_path, part_paths) u w)))
           = Logging ERROR ''{} exists'' [PStr (target_path work_dir dst_dir origin_path)]"
  using assms unfolding reassemble_item_def
  by (auto simp: reassemble_defs split: prod.splits option.splits entry.splits)

lemma reassemble_item_main_conflict_silent:
  assumes "output_path work_dir origin_path \<noteq> target_path work_dir dst_dir origin_path"
    and "is_dir w (target_path work_dir dst_dir origin_path) \<or>
         map_of (decompressed w ([''cat''] @ ps) (output_path work_dir origin_path))
           (target_path work_dir dst_dir origin_path) \<noteq> None"
    and "fst (procs w ([''cat''] @ ps) (zstd_cmd (output_path work_dir origin_path)) (files w)) = 0"
    and "map_of origin_state origin_path = Some (Desc d)"
    and "map_of (decompressed w ([''cat''] @ ps) (output_path work_dir origin_path))
           (output_path work_dir origin_path) = Some f"
  shows "fst (reassemble_item_main work_dir dst_dir origin_state (origin_path, Parts ps) u w) = Inr ()"
    and "list_all (\<lambda>ev. \<not> is_logging ev)
           (new_events (reassemble_item_main work_dir dst_dir origin_state (origin_path, Parts ps) u) w)"
  using assms unfolding reassemble_item_main_def
  by (auto simp: reassemble_defs split: prod.splits option.splits entry.splits)

lemma for_each_continues:
  "body x s w = (Inr s', w') \<Longrightarrow> for_each body (x # xs) s w = for_each body xs s' w'"
  by (simp add: bnd_def)

text \<open>
  C9, as amended. Take a logical-id whose output path in the work directory differs from its
  path in the destination directory, and let a file or directory of that name be at the
  destination when the pipeline has run. Then, in both scripts, \<^verbatim>\<open>reassemble\<close> does not
  rename, the destination file is as the pipeline left it and the directories are as they
  were; when the pipeline exits with 0, wrote the output file, and the origin inventory has
  the descriptor, the body returns normally, so that the loop goes on with the next
  logical-id. The conflict is reported by \<^verbatim>\<open>cta-ingest.py\<close>, whose last call is then
  \<^verbatim>\<open>logging.error\<close>; \<^verbatim>\<open>cta_ingest/__main__.py\<close> makes no logging call.
\<close>

theorem reassemble_skips_existing_destination:
  "(output_path work_dir origin_path \<noteq> target_path work_dir dst_dir origin_path \<and>
      (is_dir w (target_path work_dir dst_dir origin_path) \<or>
       map_of (decompressed w ([''cat''] @ sorted_py (iter part_paths)) (output_path work_dir origin_path))
         (target_path work_dir dst_dir origin_path) \<noteq> None) \<longrightarrow>
      list_all (\<lambda>ev. \<not> is_rename ev)
        (new_events (reassemble_item work_dir dst_dir origin_state (origin_path, part_paths) u) w) \<and>
      map_of (files (snd (reassemble_item work_dir dst_dir origin_state (origin_path, part_paths) u w)))
          (target_path work_dir dst_dir origin_path) =
        map_of (decompressed w ([''cat''] @ sorted_py (iter part_paths)) (output_path work_dir origin_path))
          (target_path work_dir dst_dir origin_path) \<and>
      dirs (snd (reassemble_item work_dir dst_dir origin_state (origin_path, part_paths) u w)) = dirs w \<and>
      (fst (procs w ([''cat''] @ sorted_py (iter part_paths))
             (zstd_cmd (output_path work_dir origin_path)) (files w)) = 0 \<and>
       map_of origin_state origin_path = Some (Desc d) \<and>
       map_of (decompressed w ([''cat''] @ sorted_py (iter part_paths)) (output_path work_dir origin_path))
         (output_path work_dir origin_path) = Some f \<longrightarrow>
       fst (reassemble_item work_dir dst_dir origin_state (origin_path, part_paths) u w) = Inr () \<and>
       last (trace (snd (reassemble_item work_dir dst_dir origin_state (origin_path, part_paths) u w)))
         = Logging ERROR ''{} exists'' [PStr (target_path work_dir dst_dir origin_path)]))
   \<and> (output_path work_dir origin_path \<noteq> target_path work_dir dst_dir origin_path \<and>
      (is_dir w (target_path work_dir dst_dir origin_path) \<or>
       map_of (decompressed w ([''cat''] @ ps) (output_path work_dir origin_path))
         (target_path work_dir dst_dir origin_path) \<noteq> None) \<longrightarrow>
      list_all (\<lambda>ev. \<not> is_rename ev)
        (new_events (reassemble_item_main work_dir dst_dir origin_state (origin_path, Parts ps) u) w) \<and>
      map_of (files (snd (reassemble_item_main work_dir dst_dir origin_state (origin_path, Parts ps) u w)))
          (target_path work_dir dst_dir origin_path) =
        map_of (decompressed w ([''cat''] @ ps) (output_path work_dir origin_path))
          (target_path work_dir dst_dir origin_path) \<and>
      dirs (snd (reassemble_item_main work_dir dst_dir origin_state (origin_path, Parts ps) u w)) = dirs w \<and>
      (fst (procs w ([''cat''] @ ps) (zstd_cmd (output_path work_dir origin_path)) (files w)) = 0 \<and>
       map_of origin_state origin_path = Some (Desc d) \<and>
       map_of (decompressed w ([''cat''] @ ps) (output_path work_dir origin_path))
         (output_path work_dir origin_path) = Some f \<longrightarrow>
       fst (reassemble_item_main work_dir dst_dir origin_state (origin_path, Parts ps) u w) = Inr () \<and>
       list_all (\<lambda>ev. \<not> is_logging ev)
         (new_events (reassemble_item_main work_dir dst_dir origin_state (origin_path, Parts ps) u) w)))
   \<and> (reassemble_item work_dir dst_dir origin_state item u w = (Inr u', w') \<longrightarrow>
        for_each (reassemble_item work_dir dst_dir origin_state) (item # rest) u w =
        for_each (reassemble_item work_dir dst_dir origin_state) rest u' w')
   \<and> (reassemble_item_main work_dir dst_dir origin_state item u w = (Inr u', w') \<longrightarrow>
        for_each (reassemble_item_main work_dir dst_dir origin_state) (item # rest) u w =
        for_each (reassemble_item_main work_dir dst_dir origin_state) rest u' w')"
proof (intro conjI impI; (elim conjE)?)
  show "for_each (reassemble_item work_dir dst_dir origin_state) (item # rest) u w =
        for_each (reassemble_item work_dir dst_dir origin_state) rest u' w'"
    if "reassemble_item work_dir dst_dir origin_state item u w = (Inr u', w')"
    using that by (rule for_each_continues)
  show "for_each (reassemble_item_main work_dir dst_dir origin_state) (item # rest) u w =
        for_each (reassemble_item_main work_dir dst_dir origin_state) rest u' w'"
    if "reassemble_item_main work_dir dst_dir origin_state item u w = (Inr u', w')"
    using that by (rule for_each_continues)
qed (erule (1) reassemble_item_conflict reassemble_item_main_conflict
      | erule (4) reassemble_item_conflict_reported reassemble_item_main_conflict_silent)+

theorem reassemble_skips_existing_destination_witness:
  "fst (reassemble_item ''/r'' ''/dst''
         [(''a.dat'', Desc \<lparr>path = ''/data/a.dat'', size_bytes = 25000000, mtime = 1, atime = 2, ts = Some 3\<rparr>)]
         (''a.dat'', Parts [''/d/a.dat/ab'', ''/d/a.dat/aa'']) () conflict_world) = Inr ()
   \<and> map_of (files (snd (reassemble_item ''/r'' ''/dst''
         [(''a.dat'', Desc \<lparr>path = ''/data/a.dat'', size_bytes = 25000000, mtime = 1, atime = 2, ts = Some 3\<rparr>)]
         (''a.dat'', Parts [''/d/a.dat/ab'', ''/d/a.dat/aa'']) () conflict_world))) ''/dst/a.dat''
      = Some \<lparr>content = Bytes ''old'', utime = Some (2, 1), mode = Some 292\<rparr>
   \<and> last (trace (snd (reassemble_item ''/r'' ''/dst''
         [(''a.dat'', Desc \<lparr>path = ''/data/a.dat'', size_bytes = 25000000, mtime = 1, atime = 2, ts = Some 3\<rparr>)]
         (''a.dat'', Parts [''/d/a.dat/ab'', ''/d/a.dat/aa'']) () conflict_world)))
      = Logging ERROR ''{} exists'' [PStr ''/dst/a.dat'']"
  using reassemble_skips_existing_destination[where work_dir = "''/r''" and dst_dir = "''/dst''"
      and origin_path = "''a.dat''" and part_paths = "Parts [''/d/a.dat/ab'', ''/d/a.dat/aa'']"
      and w = conflict_world and u = "()"
      and origin_state = "[(''a.dat'', Desc \<lparr>path = ''/data/a.dat'', size_bytes = 25000000,
                                               mtime = 1, atime = 2, ts = Some 3\<rparr>)]"
      and d = "\<lparr>path = ''/data/a.dat'', size_bytes = 25000000, mtime = 1, atime = 2, ts = Some 3\<rparr>"
      and f = "\<lparr>content = Bytes ''data'', utime = None, mode = None\<rparr>"]
  by (simp add: output_path_def target_path_def zstd_cmd_def decompressed_def run_defs world_defs)

text \<open>\<^verbatim>\<open>reassemble\<close> of \<^verbatim>\<open>cta_ingest/__main__.py\<close> on a conflict: it returns normally and its
  calls end with the existence check; the conflict is not reported. And when the work
  directory is the destination directory, the output path is the destination path: the
  file that was there is written over by the pipeline \<^verbatim>\<open>reassemble\<close> starts, before the
  existence check.\<close>

theorem reassemble_main_conflict_not_reported:
  "fst (reassemble_main ''/r'' ''/dst'' conflict_world) = Inr ()
   \<and> trace (snd (reassemble_main ''/r'' ''/dst'' conflict_world)) =
       [Mkdir ''/r'', Mkdir ''/dst'', S3Get ''download.json'', S3Get ''origin.json'',
        Popen [''cat'', ''/d/a.dat/ab'', ''/d/a.dat/aa''],
        Popen [''zstd'', ''--quiet'', ''--force'', ''--decompress'', ''-o'', ''/r/a.dat''],
        Utime ''/r/a.dat'' 2 1, Chmod ''/r/a.dat'' 292, Exists ''/dst/a.dat'']
   \<and> map_of (files conflict_world) ''/dst/a.dat''
       = Some \<lparr>content = Bytes ''old'', utime = Some (2, 1), mode = Some 292\<rparr>
   \<and> map_of (files (snd (reassemble ''/dst'' ''/dst'' conflict_world))) ''/dst/a.dat''
       = Some \<lparr>content = Bytes ''data'', utime = Some (2, 1), mode = Some 292\<rparr>"
  by (simp add: reassemble_main_conflict_world)
    (simp add: reassemble_def reassemble_item_def run_defs world_defs)

subsection \<open>The order of the parts\<close>

lemma str_le_refl: "str_le a a"
  by (induction a) auto

lemma str_le_total: "str_le a b \<or> str_le b a"
  by (induction a b rule: str_le.induct) auto

lemma str_le_trans: "str_le a b \<Longrightarrow> str_le b c \<Longrightarrow> str_le a c"
proof (induction a b arbitrary: c rule: str_le.induct)
  case (1 ys)
  then show ?case by simp
next
  case (2 x xs)
  then show ?case by simp
next
  case (3 x xs y ys)
  then show ?case by (cases c) auto
qed

lemma set_insort_str: "set (insort_str x xs) = insert x (set xs)"
  by (induction xs) auto

lemma sorted_insort_str: "sorted_wrt str_le xs \<Longrightarrow> sorted_wrt str_le (insort_str x xs)"
proof (induction xs)
  case Nil
  then show ?case by simp
next
  case (Cons y ys)
  show ?case
  proof (cases "str_le x y")
    case True
    then show ?thesis using Cons.prems by (auto intro: str_le_trans)
  next
    case False
    then have "str_le y x" using str_le_total by blast
    then show ?thesis using False Cons by (auto simp: set_insort_str)
  qed
qed

lemma count_insort_str:
  "count_list (insort_str x xs) y = count_list (x # xs) y"
  by (induction xs) auto

text \<open>\<^verbatim>\<open>sorted\<close> returns its argument rearranged in ascending order.\<close>

lemma sorted_py_sorts:
  "sorted_wrt str_le (sorted_py xs) \<and> (\<forall>y. count_list (sorted_py xs) y = count_list xs y)"
  unfolding sorted_py_def
  by (induction xs) (auto simp: sorted_insort_str count_insort_str)

text \<open>The commands \<^verbatim>\<open>reassemble\<close> starts for a logical-id: in \<^verbatim>\<open>cta-ingest.py\<close> the parts
  are given to \<^verbatim>\<open>cat\<close> sorted, in \<^verbatim>\<open>cta_ingest/__main__.py\<close> as the ledger lists them.\<close>

lemma reassemble_item_cat_sorted:
  "\<exists>evs. trace (snd (reassemble_item work_dir dst_dir origin_state (origin_path, part_paths) u w)) =
     trace w @
     [Logging INFO ''Processing {} from {} parts'' [PStr origin_path, PInt (int (length (iter part_paths)))],
      Popen (''cat'' # sorted_py (iter part_paths)),
      Popen (zstd_cmd (output_path work_dir origin_path))] @ evs"
  unfolding reassemble_item_def
  by (auto simp: reassemble_defs rename_def split: prod.splits option.splits entry.splits)

lemma reassemble_item_main_cat_ledger_order:
  "\<exists>evs. trace (snd (reassemble_item_main work_dir dst_dir origin_state (origin_path, Parts ps) u w)) =
     trace w @ [Popen (''cat'' # ps), Popen (zstd_cmd (output_path work_dir origin_path))] @ evs"
  unfolding reassemble_item_main_def
  by (auto simp: reassemble_defs rename_def split: prod.splits option.splits entry.splits)

text \<open>
  C3. \<^verbatim>\<open>reassemble\<close> of \<^verbatim>\<open>cta_ingest/__main__.py\<close> passes the part paths to \<^verbatim>\<open>cat\<close> in the
  order of the ledger entry: with the second part listed first, the parts are
  concatenated second part first. (\<^verbatim>\<open>reassemble\<close> of \<^verbatim>\<open>cta-ingest.py\<close> sorts them.)
\<close>

theorem reassemble_main_keeps_ledger_order:
  "trace (snd (reassemble_main ''/r'' ''/dst'' downloaded_world)) =
     [Mkdir ''/r'', Mkdir ''/dst'', S3Get ''download.json'', S3Get ''origin.json'',
      Popen [''cat'', ''/d/a.dat/ab'', ''/d/a.dat/aa''],
      Popen [''zstd'', ''--quiet'', ''--force'', ''--decompress'', ''-o'', ''/r/a.dat''],
      Utime ''/r/a.dat'' 2 1, Chmod ''/r/a.dat'' 292, Exists ''/dst/a.dat'',
      Rename ''/r/a.dat'' ''/dst/a.dat'']
   \<and> sorted_py [''/d/a.dat/ab'', ''/d/a.dat/aa''] = [''/d/a.dat/aa'', ''/d/a.dat/ab'']"
  by (simp add: reassemble_main_downloaded_world) (simp add: sorted_py_def)



end
